theory Spec2Isabelle
  imports Complex_Main "HOL-Library.Multiset" "HOL-Library.Log_Nat"
begin

section \<open>Memory game board (MemoryGameService.createGameBoard)\<close>

text \<open>
  A card of the board. The symbol is the string literal of the source, kept as its list of
  UTF-16 code units (only equality of symbols is ever used).
\<close>

record card =
  cid :: nat
  position :: nat
  symbol :: "nat list"
  isFlipped :: bool
  isMatched :: bool

text \<open>The fifteen symbol literals of \<open>createGameBoard\<close>, in source order.\<close>

definition symbols :: "nat list list" where
  "symbols =
    [ [0xF0, 0x178, 0x17D, 0xAE], [0xF0, 0x178, 0x17D, 0xAF], [0xF0, 0x178, 0x17D, 0xB2],
     [0xF0, 0x178, 0x192], [0xF0, 0x178, 0x17D, 0xAA], [0xF0, 0x178, 0x17D, 0xA8],
     [0xF0, 0x178, 0x17D, 0xAD], [0xF0, 0x178, 0x2019, 0xA1], [0xF0, 0x178, 0xB8],
     [0xF0, 0x178, 0x17D, 0xEF, 0xB8], [0xF0, 0x178, 0x20AC], [0xE2, 0x161, 0xBD],
     [0xF0, 0x178, 0x2C6], [0xF0, 0x178, 0x201C], [0xF0, 0x178, 0x17D, 0xBE] ]"

text \<open>\<open>symbols.forEach((symbol, index) => { cards.push(..); cards.push(..) })\<close>\<close>

fun create_pairs :: "nat \<Rightarrow> nat list list \<Rightarrow> card list" where
  "create_pairs index [] = []"
| "create_pairs index (smb # rest) =
     \<lparr>cid = index * 2, position = index * 2, symbol = smb,
      isFlipped = False, isMatched = False\<rparr> #
     \<lparr>cid = index * 2 + 1, position = index * 2 + 1, symbol = smb,
      isFlipped = False, isMatched = False\<rparr> #
     create_pairs (Suc index) rest"

text \<open>
  The seed: the sum of the character codes of the room id, or the clock when the room id is
  falsy (the empty string). The clock reading is a parameter.
\<close>

definition seed_of :: "string \<Rightarrow> nat \<Rightarrow> nat" where
  "seed_of roomId now =
     (if roomId \<noteq> [] then foldl (\<lambda>a b. a + of_char b) 0 roomId else now)"

text \<open>
  One pass of the shuffle, \<open>for (let i = cards.length - 1; i > 0; i--)\<close>, threading the
  generator state \<open>seedValue = (seedValue * 16807) % 2147483647\<close>. The index
  \<open>j = Math.floor(seededRandom() * (i + 1))\<close> is the integer part of
  \<open>seedValue * (i + 1) / 2147483647\<close>: the modulus is prime and larger than \<open>seedValue\<close>
  and \<open>i + 1\<close>, so the exact quotient is never within rounding distance of an integer
  (other than for \<open>seedValue = 0\<close>, where it is exactly \<open>0\<close>). The products
  \<open>seedValue * 16807\<close> are exact in the source's doubles as long as the seed is below
  \<open>2^53 / 16807\<close>, which holds for the character sum of any room id and for every later
  generator state; a clock seed is larger, and there the source rounds the first product.
  None of the properties proved below depends on the value of the seed.
\<close>

fun fisher_yates :: "nat \<Rightarrow> nat \<times> card list \<Rightarrow> nat \<times> card list" where
  "fisher_yates 0 st = st"
| "fisher_yates (Suc k) (seedValue, cards) =
     (let sv = (seedValue * 16807) mod 2147483647;
          i = Suc k;
          j = (sv * (i + 1)) div 2147483647
      in fisher_yates k (sv, cards[i := cards ! j, j := cards ! i]))"

text \<open>\<open>for (let pass = 0; pass < 3; pass++)\<close>\<close>

fun shuffle_passes :: "nat \<Rightarrow> nat \<times> card list \<Rightarrow> nat \<times> card list" where
  "shuffle_passes 0 st = st"
| "shuffle_passes (Suc p) (seedValue, cards) =
     shuffle_passes p (fisher_yates (length cards - 1) (seedValue, cards))"

text \<open>\<open>cards.forEach((card, index) => { card.position = index })\<close>\<close>

fun update_positions :: "nat \<Rightarrow> card list \<Rightarrow> card list" where
  "update_positions index [] = []"
| "update_positions index (c # cs) = c\<lparr>position := index\<rparr> # update_positions (Suc index) cs"

text \<open>The validation at the end: the symbols whose count is not two.\<close>

definition invalidSymbols :: "card list \<Rightarrow> nat list list" where
  "invalidSymbols cards =
     filter (\<lambda>smb. count_list (map symbol cards) smb \<noteq> 2) (remdups (map symbol cards))"

definition createGameBoard :: "string \<Rightarrow> nat \<Rightarrow> string + card list" where
  "createGameBoard roomId now =
     (let cards0 = create_pairs 0 symbols;
          seed = seed_of roomId now;
          cards1 = snd (shuffle_passes 3 (seed, cards0));
          cards = update_positions 0 cards1
      in if invalidSymbols cards \<noteq> [] then Inl ''MemoryGame: Invalid card distribution!''
         else Inr cards)"

section \<open>Session state machine (MemoryGameService)\<close>

text \<open>
  The in-memory state of one game, as \<open>startGame\<close> builds it. Identifiers are strings;
  the three per-player dictionaries are partial maps (a deleted or missing key is \<open>None\<close>,
  the source's \<open>undefined\<close>). Socket emissions and the arming of timers are not part of
  the state and are left out; each handler is modelled by the state change it makes.
\<close>

record selected =
  s_position :: nat
  s_symbol :: "nat list"
  cardId :: nat

record player =
  pid :: string
  pname :: string
  pposition :: nat
  score :: int

record gameState =
  board :: "card list"
  players :: "player list"
  currentTurnIndex :: nat
  currentTurnPlayerId :: string
  selectedCards :: "selected list"
  scores :: "string \<rightharpoonup> int"
  lifelines :: "string \<rightharpoonup> int"
  missedTurns :: "string \<rightharpoonup> int"
  matchedPairs :: nat
  totalPairs :: nat
  status :: string
  processingCards :: bool

text \<open>
  What a handler leaves behind: the game goes on in a new state, the game was ended
  (\<open>endGame\<close>: winner id, end reason, and the state handed to the final database update),
  the game was dropped from the registry without being ended, or the handler raised a
  \<open>TypeError\<close> on an \<open>undefined\<close> value.
\<close>

datatype outcome =
    Continue gameState
  | Ended "string option" string gameState
  | Removed
  | Crash

subsection \<open>selectCard\<close>

datatype select_result = Rejected string | Opened bool

text \<open>
  \<open>selectCard\<close> on the registry \<open>this.games\<close>. The game id and the player id are strings,
  empty when missing; the position is the result of \<open>parseInt\<close>, \<open>None\<close> for \<open>NaN\<close>.
  \<open>Opened True\<close> means that the second card was opened and \<open>processMatch\<close> was scheduled.
\<close>

definition selectCard ::
  "(string \<rightharpoonup> gameState) \<Rightarrow> string \<Rightarrow> string \<Rightarrow> int option
     \<Rightarrow> select_result \<times> (string \<rightharpoonup> gameState)" where
  "selectCard games gameId playerId pos =
    (if gameId = [] then (Rejected ''Valid game ID required.'', games)
     else if playerId = [] then (Rejected ''Valid player ID required.'', games)
     else case pos of
       None \<Rightarrow> (Rejected ''Valid card position required.'', games)
     | Some p \<Rightarrow>
        if p < 0 then (Rejected ''Valid card position required.'', games)
        else case games gameId of
          None \<Rightarrow> (Rejected ''Game not found.'', games)
        | Some g \<Rightarrow>
           if status g \<noteq> ''playing'' then (Rejected ''Game is not active.'', games)
           else if currentTurnPlayerId g \<noteq> playerId then (Rejected ''Not your turn.'', games)
           else if processingCards g then
             (Rejected ''Please wait, cards are being processed.'', games)
           else if length (board g) \<le> nat p then (Rejected ''Invalid card position.'', games)
           else let c = board g ! nat p in
             if isFlipped c \<or> isMatched c then
               (Rejected ''Card already revealed or matched.'', games)
             else if 2 \<le> length (selectedCards g) then
               (Rejected ''Maximum 2 cards per turn.'', games)
             else if list_ex (\<lambda>sel. s_position sel = nat p) (selectedCards g) then
               (Rejected ''Card already selected this turn.'', games)
             else
               let g' = g\<lparr>processingCards := True,
                          board := (board g)[nat p := c\<lparr>isFlipped := True\<rparr>],
                          selectedCards := selectedCards g @
                            [\<lparr>s_position = nat p, s_symbol = symbol c, cardId = cid c\<rparr>]\<rparr>
               in if length (selectedCards g') = 2 then (Opened True, games(gameId \<mapsto> g'))
                  else (Opened False, games(gameId \<mapsto> g'\<lparr>processingCards := False\<rparr>)))"

subsection \<open>nextTurn, endGame, handleTurnTimeout, handlePlayerExit\<close>

text \<open>
  \<open>nextTurn\<close>: with no player left, \<open>% 0\<close> is \<open>NaN\<close> and reading \<open>.id\<close> of the missing
  player raises; that is \<open>None\<close>.
\<close>

definition nextTurn :: "gameState \<Rightarrow> gameState option" where
  "nextTurn g =
    (if players g = [] then None
     else let i = (currentTurnIndex g + 1) mod length (players g)
          in Some (g\<lparr>currentTurnIndex := i,
                     currentTurnPlayerId := pid (players g ! i),
                     selectedCards := [],
                     processingCards := False\<rparr>))"

text \<open>
  The leaderboard of \<open>endGame\<close>: one entry per player with \<open>scores[player.id] || 0\<close>,
  sorted by descending score (the sort is stable).
\<close>

definition leaderboard :: "gameState \<Rightarrow> (string \<times> int) list" where
  "leaderboard g =
     sort_key (\<lambda>e. - snd e)
       (map (\<lambda>p. (pid p, case scores g (pid p) of None \<Rightarrow> 0 | Some v \<Rightarrow> v)) (players g))"

definition endGame_winnerId :: "gameState \<Rightarrow> string \<Rightarrow> string option" where
  "endGame_winnerId g endReason =
    (if endReason = ''opponent_eliminated'' \<or> endReason = ''opponent_quit'' then
       (case players g of [] \<Rightarrow> None | p # _ \<Rightarrow> Some (pid p))
     else if endReason = ''game_completed'' then
       (case leaderboard g of [] \<Rightarrow> None | e # _ \<Rightarrow> Some (fst e))
     else None)"

definition endGame :: "gameState \<Rightarrow> string \<Rightarrow> outcome" where
  "endGame g endReason = Ended (endGame_winnerId g endReason) endReason g"

text \<open>
  Removing a player: \<open>players.filter(p => p.id !== id)\<close> and the three \<open>delete\<close>s.
\<close>

definition removePlayer :: "string \<Rightarrow> gameState \<Rightarrow> gameState" where
  "removePlayer i g =
     g\<lparr>players := filter (\<lambda>p. pid p \<noteq> i) (players g),
       scores := (scores g)(i := None),
       lifelines := (lifelines g)(i := None),
       missedTurns := (missedTurns g)(i := None)\<rparr>"

text \<open>
  \<open>selectedCards.forEach(selected => { board[selected.position].isFlipped = false })\<close>;
  a position outside the board raises (\<open>None\<close>).
\<close>

fun flipBack :: "selected list \<Rightarrow> card list \<Rightarrow> card list option" where
  "flipBack [] b = Some b"
| "flipBack (sel # rest) b =
     (if s_position sel < length b
      then flipBack rest (b[s_position sel := (b ! s_position sel)\<lparr>isFlipped := False\<rparr>])
      else None)"

text \<open>
  The lifeline part of \<open>handleTurnTimeout\<close>: \<open>Inl\<close> when the elimination leaves one
  player and the game is ended there, \<open>Inr\<close> the state to go on with otherwise.
\<close>

definition lifelineStep :: "player option \<Rightarrow> gameState \<Rightarrow> gameState + gameState" where
  "lifelineStep currentPlayer g =
    (case currentPlayer of
       None \<Rightarrow> Inr g
     | Some cp \<Rightarrow>
        (case lifelines g (pid cp) of
           None \<Rightarrow> Inr g
         | Some l \<Rightarrow>
            if 0 < l then
              let g1 = g\<lparr>lifelines := (lifelines g)(pid cp \<mapsto> l - 1),
                         missedTurns := (missedTurns g)(pid cp \<mapsto>
                           (case missedTurns g (pid cp) of None \<Rightarrow> 0 | Some m \<Rightarrow> m) + 1)\<rparr>
              in if l - 1 = 0 then
                   let g2 = removePlayer (pid cp) g1
                   in if length (players g2) = 1 then Inl g2
                      else if length (players g2) \<le> currentTurnIndex g2
                        then Inr (g2\<lparr>currentTurnIndex := 0\<rparr>)
                        else Inr g2
                 else Inr g1
            else Inr g))"

definition handleTurnTimeout :: "gameState \<Rightarrow> outcome" where
  "handleTurnTimeout g =
    (let currentPlayer = find (\<lambda>p. pid p = currentTurnPlayerId g) (players g)
     in case lifelineStep currentPlayer g of
          Inl ended \<Rightarrow> endGame ended ''opponent_eliminated''
        | Inr g1 \<Rightarrow>
            (case flipBack (selectedCards g1) (board g1) of
               None \<Rightarrow> Crash
             | Some b \<Rightarrow>
                 let g2 = g1\<lparr>board := b\<rparr>
                 in if (case currentPlayer of None \<Rightarrow> False
                        | Some cp \<Rightarrow> list_ex (\<lambda>p. pid p = pid cp) (players g2))
                    then (case nextTurn g2 of None \<Rightarrow> Crash | Some g3 \<Rightarrow> Continue g3)
                    else if currentTurnIndex g2 < length (players g2)
                      then Continue (g2\<lparr>currentTurnPlayerId :=
                                          pid (players g2 ! currentTurnIndex g2)\<rparr>)
                      else Crash))"

text \<open>\<open>Array.prototype.findIndex\<close>, with \<open>None\<close> for \<open>-1\<close>.\<close>

fun findIndex :: "('a \<Rightarrow> bool) \<Rightarrow> 'a list \<Rightarrow> nat option" where
  "findIndex P [] = None"
| "findIndex P (x # xs) = (if P x then Some 0 else map_option Suc (findIndex P xs))"

text \<open>
  \<open>handlePlayerExit\<close> for one game. In a game of two the game is ended; otherwise the
  leaving player is removed and, if it was that player's turn, the turn moves on. The
  index adjustment looks the leaving player up in the list it was just removed from.
\<close>

definition handlePlayerExit :: "gameState \<Rightarrow> string \<Rightarrow> string \<Rightarrow> outcome" where
  "handlePlayerExit g playerId reason =
    (if status g \<noteq> ''playing'' then Continue g
     else case find (\<lambda>p. pid p = playerId) (players g) of
       None \<Rightarrow> Continue g
     | Some leavingPlayer \<Rightarrow>
        if length (players g) = 2 then
          (if reason = ''disconnected'' \<or> reason = ''network_issue''
           then endGame g ''network_issue''
           else endGame (removePlayer playerId g) ''opponent_quit'')
        else
          let g1 = removePlayer playerId g
          in case (if currentTurnPlayerId g1 = playerId then
                     nextTurn
                       (case findIndex (\<lambda>p. pid p = playerId) (players g1) of
                          None \<Rightarrow> g1
                        | Some leavingPlayerIndex \<Rightarrow>
                            if leavingPlayerIndex \<le> currentTurnIndex g1
                            then g1\<lparr>currentTurnIndex := currentTurnIndex g1 - 1\<rparr>
                            else g1)
                   else Some g1) of
               None \<Rightarrow> Crash
             | Some g2 \<Rightarrow>
                 if length (players g2) = 1 then endGame g2 ''opponent_quit''
                 else if players g2 = [] then Removed
                 else Continue g2)"

text \<open>
  The turn invariant of a game in progress: at most two selected cards, the turn index
  inside the player list, and the turn's player id that of the player at the index.
\<close>

definition turn_inv :: "gameState \<Rightarrow> bool" where
  "turn_inv g \<longleftrightarrow>
     length (selectedCards g) \<le> 2 \<and>
     currentTurnIndex g < length (players g) \<and>
     currentTurnPlayerId g = pid (players g ! currentTurnIndex g)"

section \<open>Numbers of the source\<close>

text \<open>
  The store keeps amounts in decimal columns. The services read them with \<open>parseFloat\<close>
  and add and compare them as JavaScript numbers, which are IEEE 754 doubles.
  \<open>toDouble x\<close> is the double nearest to the rational \<open>x\<close>: 53 significant bits, round
  to nearest, ties to even. The exponent is not bounded, since the amounts of the store and
  the fees of a request are far inside the normal range. \<open>binaryExponent x\<close> is, for
  positive \<open>x\<close>, the \<open>e\<close> with \<open>2^e \<le> x < 2^(e+1)\<close>, found from the bit lengths of
  numerator and denominator. The sum of two doubles is the double nearest to their exact
  sum; comparisons of doubles are exact.
\<close>

definition pow2 :: "int \<Rightarrow> rat" where
  "pow2 e = (if 0 \<le> e then 2 ^ nat e else 1 / 2 ^ nat (- e))"

definition binaryExponent :: "rat \<Rightarrow> int" where
  "binaryExponent x =
     (let k = bitlen (fst (quotient_of x)) - bitlen (snd (quotient_of x))
      in if pow2 k \<le> x then k else k - 1)"

definition roundHalfEven :: "rat \<Rightarrow> int" where
  "roundHalfEven x =
     (let f = \<lfloor>x\<rfloor>; d = x - of_int f
      in if d < 1 / 2 then f else if 1 / 2 < d then f + 1 else if even f then f else f + 1)"

definition toDouble :: "rat \<Rightarrow> rat" where
  "toDouble x =
     (if x = 0 then 0
      else let ulp = pow2 (binaryExponent \<bar>x\<bar> - 52);
               m = of_int (roundHalfEven (\<bar>x\<bar> / ulp)) * ulp
           in if 0 < x then m else - m)"

definition dadd :: "rat \<Rightarrow> rat \<Rightarrow> rat" where
  "dadd a b = toDouble (a + b)"

section \<open>Persistent state: wallets, transactions, queue, games\<close>

text \<open>
  The tables the services read and write, together with the two in-memory guard sets of
  the services (\<open>WalletService.ongoingDeductions\<close>, \<open>MemoryGameService.processedWinnings\<close>).
  Amounts are the decimal amounts of the store, as rationals. The store's columns have
  scale two (\<open>DECIMAL(10,2)\<close> in the migrations); the model does not round, so it speaks
  of amounts and fees of at most two decimals, on which a write to the store is exact
  decimal arithmetic. Tables whose row order matters
  (\<open>findFirst\<close>, \<open>orderBy createdAt\<close>) are lists in insertion order. Transaction and queue
  ids are assigned from the table itself; the ids of a new game and of a new bot user are
  given by the store and are parameters of the operations that create them. Storage
  failures are not modelled.
\<close>

record wallet =
  balance :: rat
  gameBalance :: rat
  withdrawableBalance :: rat

record transaction =
  t_id :: nat
  t_userId :: string
  t_type :: string
  t_amount :: rat
  t_status :: string
  t_gameId :: "string option"

record queueEntry =
  q_id :: nat
  q_userId :: string
  q_gameType :: string
  q_maxPlayers :: nat
  q_entryFee :: rat

record participation =
  gp_userId :: string
  gp_position :: nat
  gp_score :: int

record game =
  g_type :: string
  g_maxPlayers :: nat
  g_entryFee :: rat
  g_prizePool :: rat
  g_status :: string
  g_participants :: "participation list"

record sys =
  users :: "(string \<times> bool) list"
  wallets :: "string \<rightharpoonup> wallet"
  transactions :: "transaction list"
  matchmakingQueue :: "queueEntry list"
  nextQueueId :: nat
  gameTable :: "(string \<times> game) list"
  ongoingDeductions :: "string set"
  processedWinnings :: "string set"

subsection \<open>WalletService\<close>

text \<open>\<open>getWallet\<close> creates an empty wallet when the user has none.\<close>

definition getWallet :: "string \<Rightarrow> sys \<Rightarrow> wallet \<times> sys" where
  "getWallet userId s =
    (case wallets s userId of
       Some w \<Rightarrow> (w, s)
     | None \<Rightarrow>
        (let w = \<lparr>balance = 0, gameBalance = 0, withdrawableBalance = 0\<rparr>
         in (w, s\<lparr>wallets := (wallets s)(userId \<mapsto> w)\<rparr>)))"

text \<open>
  The result of \<open>deductGameEntry\<close>: the success object (balance, game balance,
  withdrawable balance, transaction id), a \<open>success: false\<close> object with its message, or
  a thrown error.
\<close>

datatype deduct_result =
    DeductOk rat rat rat nat
  | DeductFail string
  | DeductThrow string

definition gameEntryTransactions :: "string \<Rightarrow> string \<Rightarrow> sys \<Rightarrow> transaction list" where
  "gameEntryTransactions userId gameId s =
     filter (\<lambda>t. t_userId t = userId \<and> t_gameId t = Some gameId \<and> t_type t = ''GAME_ENTRY'' \<and>
                 (t_status t = ''COMPLETED'' \<or> t_status t = ''PENDING''))
            (transactions s)"

text \<open>
  The body of the database transaction of \<open>deductGameEntry\<close>; an error thrown inside rolls
  the transaction back and is mapped by the outer \<open>catch\<close>. The balance re-check and the
  choice between the two sub-balances are made on the doubles read with \<open>parseFloat\<close>.
  The decrements are handed to the store, which applies them to its decimal columns; for
  amounts of at most two decimals the stored result is that of the decimal subtraction,
  which is what the model writes.
\<close>

definition deductTransaction :: "string \<Rightarrow> rat \<Rightarrow> string \<Rightarrow> sys \<Rightarrow> deduct_result \<times> sys" where
  "deductTransaction userId amount gameId s =
    (if gameEntryTransactions userId gameId s \<noteq> [] then
       (DeductFail ''Entry fee already deducted for this game'', s)
     else
       let tx = \<lparr>t_id = length (transactions s), t_userId = userId, t_type = ''GAME_ENTRY'',
                 t_amount = amount, t_status = ''COMPLETED'', t_gameId = Some gameId\<rparr>
       in case wallets s userId of
            None \<Rightarrow> (DeductThrow ''Wallet not found'', s)
          | Some currentWallet \<Rightarrow>
             let numericAmount = toDouble amount;
                 gameBalanceAvailable = toDouble (gameBalance currentWallet);
                 withdrawableBalanceAvailable = toDouble (withdrawableBalance currentWallet);
                 currentTotalAvailable = dadd gameBalanceAvailable withdrawableBalanceAvailable
             in if currentTotalAvailable < numericAmount then
                  (DeductFail ''Insufficient balance'', s)
                else
                  let gameBalanceDeduction =
                        (if numericAmount \<le> gameBalanceAvailable then amount
                         else gameBalance currentWallet);
                      withdrawableBalanceDeduction =
                        (if numericAmount \<le> gameBalanceAvailable then 0
                         else amount - gameBalance currentWallet);
                      updatedWallet =
                        \<lparr>balance = balance currentWallet - amount,
                         gameBalance = gameBalance currentWallet - gameBalanceDeduction,
                         withdrawableBalance =
                           withdrawableBalance currentWallet - withdrawableBalanceDeduction\<rparr>
                  in (DeductOk (balance updatedWallet) (gameBalance updatedWallet)
                        (withdrawableBalance updatedWallet) (t_id tx),
                      s\<lparr>transactions := transactions s @ [tx],
                        wallets := (wallets s)(userId \<mapsto> updatedWallet)\<rparr>))"

definition deductGameEntry :: "string \<Rightarrow> rat \<Rightarrow> string \<Rightarrow> sys \<Rightarrow> deduct_result \<times> sys" where
  "deductGameEntry userId amount gameId s =
    (let deductionKey = userId @ ''_'' @ gameId
     in if amount \<le> 0 then
          (DeductThrow ''Invalid amount for game entry'',
           s\<lparr>ongoingDeductions := ongoingDeductions s - {deductionKey}\<rparr>)
        else if deductionKey \<in> ongoingDeductions s then
          (DeductFail ''Entry fee deduction already in progress for this game'', s)
        else
          let s0 = s\<lparr>ongoingDeductions := insert deductionKey (ongoingDeductions s)\<rparr>;
              (r, s1) =
                (if gameEntryTransactions userId gameId s0 \<noteq> [] then
                   (DeductFail ''Entry fee already deducted for this game'', s0)
                 else
                   let (w, sw) = getWallet userId s0
                   in if dadd (toDouble (gameBalance w)) (toDouble (withdrawableBalance w))
                           < toDouble amount then
                        (DeductFail ''Insufficient balance'', sw)
                      else deductTransaction userId amount gameId sw)
          in (r, s1\<lparr>ongoingDeductions := ongoingDeductions s1 - {deductionKey}\<rparr>))"

datatype credit_result = CreditOk rat rat rat nat | CreditThrow string

definition creditWallet ::
  "string \<Rightarrow> rat \<Rightarrow> string \<Rightarrow> string option \<Rightarrow> sys \<Rightarrow> credit_result \<times> sys" where
  "creditWallet userId amount type gameId s =
    (if amount \<le> 0 then (CreditThrow ''Invalid amount for credit'', s)
     else
       let (w, sw) = getWallet userId s;
           tx = \<lparr>t_id = length (transactions sw), t_userId = userId, t_type = type,
                 t_amount = amount, t_status = ''COMPLETED'', t_gameId = gameId\<rparr>;
           updatedWallet =
             (if type = ''GAME_WINNING'' then
                w\<lparr>balance := balance w + amount,
                  withdrawableBalance := withdrawableBalance w + amount\<rparr>
              else if type = ''REFERRAL_BONUS'' \<or> type = ''REFERRAL_SIGNUP_BONUS'' \<or>
                      type = ''DEPOSIT'' \<or> type = ''REFUND'' then
                w\<lparr>balance := balance w + amount, gameBalance := gameBalance w + amount\<rparr>
              else w\<lparr>balance := balance w + amount\<rparr>)
       in (CreditOk (balance updatedWallet) (gameBalance updatedWallet)
             (withdrawableBalance updatedWallet) (t_id tx),
           sw\<lparr>transactions := transactions sw @ [tx],
              wallets := (wallets sw)(userId \<mapsto> updatedWallet)\<rparr>))"

text \<open>What \<open>getWalletBalance\<close> reports for a user (an absent wallet reads as zero).\<close>

definition playable :: "sys \<Rightarrow> string \<Rightarrow> rat" where
  "playable s userId = (case wallets s userId of None \<Rightarrow> 0 | Some w \<Rightarrow> gameBalance w)"

definition withdrawable :: "sys \<Rightarrow> string \<Rightarrow> rat" where
  "withdrawable s userId =
     (case wallets s userId of None \<Rightarrow> 0 | Some w \<Rightarrow> withdrawableBalance w)"

text \<open>The completed ledger entries of one (account, session, kind) key.\<close>

definition completedEntries :: "sys \<Rightarrow> string \<Rightarrow> string \<Rightarrow> string \<Rightarrow> transaction list" where
  "completedEntries s userId gameId kind =
     filter (\<lambda>t. t_userId t = userId \<and> t_gameId t = Some gameId \<and> t_type t = kind \<and>
                 t_status t = ''COMPLETED'')
            (transactions s)"

section \<open>Matchmaking (MatchmakingService, BotService)\<close>

text \<open>
  The result of \<open>joinQueue\<close>: the success object (message, queue id) or a thrown error.
  The balance check adds the two sub-balances reported by \<open>getWalletBalance\<close>, which are
  doubles read with \<open>parseFloat\<close>, and compares the sum with the fee of the request, a
  JavaScript number.
\<close>

datatype join_result = Joined string nat | JoinThrow string

definition sameQueue :: "string \<Rightarrow> nat \<Rightarrow> rat \<Rightarrow> queueEntry \<Rightarrow> bool" where
  "sameQueue gameType maxPlayers entryFee q \<longleftrightarrow>
     q_gameType q = gameType \<and> q_maxPlayers q = maxPlayers \<and> q_entryFee q = entryFee"

definition joinQueue :: "string \<Rightarrow> string \<Rightarrow> nat \<Rightarrow> rat \<Rightarrow> sys \<Rightarrow> join_result \<times> sys" where
  "joinQueue userId gameType maxPlayers entryFee s =
    (let (insufficient, s1) =
           (if 0 < entryFee then
              let (w, sw) = getWallet userId s
              in (dadd (toDouble (gameBalance w)) (toDouble (withdrawableBalance w))
                    < toDouble entryFee, sw)
            else (False, s))
     in if insufficient then (JoinThrow ''Insufficient balance'', s1)
        else
          case find (\<lambda>q. q_userId q = userId \<and> sameQueue gameType maxPlayers entryFee q)
                 (matchmakingQueue s1) of
            Some existingQueue \<Rightarrow>
              (Joined ''Already in matchmaking queue for this game'' (q_id existingQueue), s1)
          | None \<Rightarrow>
              let queueEntry = \<lparr>q_id = nextQueueId s1, q_userId = userId, q_gameType = gameType,
                                 q_maxPlayers = maxPlayers, q_entryFee = entryFee\<rparr>
              in (Joined ''Joined matchmaking queue'' (q_id queueEntry),
                  s1\<lparr>matchmakingQueue :=
                        filter (\<lambda>q. q_userId q \<noteq> userId) (matchmakingQueue s1) @ [queueEntry],
                      nextQueueId := Suc (nextQueueId s1)\<rparr>))"

definition leaveQueue :: "string \<Rightarrow> sys \<Rightarrow> sys" where
  "leaveQueue userId s =
     s\<lparr>matchmakingQueue := filter (\<lambda>q. q_userId q \<noteq> userId) (matchmakingQueue s)\<rparr>"


subsection \<open>Backfill\<close>

text \<open>
  \<open>getBotForMatchmaking\<close>: the first bot user with no queue entry and no participation in
  a game that is \<open>WAITING\<close> or \<open>PLAYING\<close>, or a newly created bot (its id \<open>newId\<close> comes
  from the store; its wallet starts with 1000); a top-up when the game balance is below the
  fee; then a queue entry for the bot, always with \<open>maxPlayers: 2\<close>.
\<close>

definition botAvailable :: "sys \<Rightarrow> string \<times> bool \<Rightarrow> bool" where
  "botAvailable s u \<longleftrightarrow>
     snd u \<and>
     \<not> list_ex (\<lambda>q. q_userId q = fst u) (matchmakingQueue s) \<and>
     \<not> list_ex (\<lambda>g. (g_status (snd g) = ''WAITING'' \<or> g_status (snd g) = ''PLAYING'') \<and>
                     list_ex (\<lambda>p. gp_userId p = fst u) (g_participants (snd g)))
          (gameTable s)"

definition getBotForMatchmaking :: "string \<Rightarrow> string \<Rightarrow> rat \<Rightarrow> sys \<Rightarrow> string \<times> sys" where
  "getBotForMatchmaking newId gameType entryFee s =
    (let (botId, s1) =
           (case find (botAvailable s) (users s) of
              Some u \<Rightarrow> (fst u, s)
            | None \<Rightarrow>
                (newId,
                 s\<lparr>users := users s @ [(newId, True)],
                   wallets := (wallets s)(newId \<mapsto>
                     \<lparr>balance = 1000, gameBalance = 1000, withdrawableBalance = 0\<rparr>)\<rparr>));
         s2 = (case wallets s1 botId of
                 None \<Rightarrow> s1
               | Some w \<Rightarrow>
                   if 0 < entryFee \<and> gameBalance w < entryFee then
                     s1\<lparr>wallets := (wallets s1)(botId \<mapsto>
                          w\<lparr>gameBalance := gameBalance w + max 1000 (entryFee * 10),
                            balance := balance w + max 1000 (entryFee * 10)\<rparr>)\<rparr>
                   else s1)
     in (botId,
         s2\<lparr>matchmakingQueue := matchmakingQueue s2 @
               [\<lparr>q_id = nextQueueId s2, q_userId = botId, q_gameType = gameType,
                 q_maxPlayers = 2, q_entryFee = entryFee\<rparr>],
            nextQueueId := Suc (nextQueueId s2)\<rparr>))"

definition queueCount :: "string \<Rightarrow> nat \<Rightarrow> rat \<Rightarrow> sys \<Rightarrow> nat" where
  "queueCount gameType maxPlayers entryFee s =
     length (filter (sameQueue gameType maxPlayers entryFee) (matchmakingQueue s))"

definition humanPlayersCount :: "string \<Rightarrow> nat \<Rightarrow> rat \<Rightarrow> sys \<Rightarrow> nat" where
  "humanPlayersCount gameType maxPlayers entryFee s =
     length (filter (\<lambda>q. sameQueue gameType maxPlayers entryFee q \<and>
                         map_of (users s) (q_userId q) = Some False)
               (matchmakingQueue s))"

text \<open>
  \<open>deployBotIfNeeded\<close>, the callback of the backfill timer. The flag tells whether a
  matchmaking pass was scheduled.
\<close>

definition deployBotIfNeeded :: "string \<Rightarrow> string \<Rightarrow> nat \<Rightarrow> rat \<Rightarrow> sys \<Rightarrow> bool \<times> sys" where
  "deployBotIfNeeded newId gameType maxPlayers entryFee s =
    (let queueCount = queueCount gameType maxPlayers entryFee s
     in if 0 < queueCount \<and> queueCount < maxPlayers then
          (if 0 < humanPlayersCount gameType maxPlayers entryFee s
           then (True, snd (getBotForMatchmaking newId gameType entryFee s))
           else (False, s))
        else (False, s))"

subsection \<open>Session formation\<close>





section \<open>Settlement (MemoryGameService.safeProcessWinnings)\<close>

text \<open>
  \<open>gameService.getGameById\<close>: \<open>null\<close> for an empty or blank id, else the game row with its
  participants ordered by position.
\<close>

definition getGameById :: "string \<Rightarrow> sys \<Rightarrow> game option" where
  "getGameById gameId s =
    (if list_all (\<lambda>c. c \<in> set [CHR '' '', CHR 0x09, CHR 0x0A, CHR 0x0B, CHR 0x0C, CHR 0x0D]) gameId
     then None
     else map_option (\<lambda>g. g\<lparr>g_participants := sort_key gp_position (g_participants g)\<rparr>)
            (map_of (gameTable s) gameId))"

definition winningTransactionExists :: "string \<Rightarrow> sys \<Rightarrow> bool" where
  "winningTransactionExists gameId s \<longleftrightarrow>
     list_ex (\<lambda>t. t_gameId t = Some gameId \<and> t_type t = ''GAME_WINNING'' \<and>
                  t_status t = ''COMPLETED'')
       (transactions s)"

text \<open>The refund loop; \<open>False\<close> when a credit threw and the loop was left.\<close>

fun refundAll :: "participation list \<Rightarrow> rat \<Rightarrow> string \<Rightarrow> sys \<Rightarrow> bool \<times> sys" where
  "refundAll [] fee gameId s = (True, s)"
| "refundAll (p # ps) fee gameId s =
     (case creditWallet (gp_userId p) fee ''REFUND'' (Some gameId) s of
        (CreditThrow e, s') \<Rightarrow> (False, s')
      | (CreditOk b gb wb t, s') \<Rightarrow> refundAll ps fee gameId s')"

text \<open>The returned object \<open>{ success, reason }\<close>.\<close>

datatype settle_result = SettleResult bool string

definition safeProcessWinnings ::
  "string \<Rightarrow> string option \<Rightarrow> string \<Rightarrow> sys \<Rightarrow> settle_result \<times> sys" where
  "safeProcessWinnings gameId winnerId reason s =
    (if gameId \<in> processedWinnings s then (SettleResult False ''already_processed'', s)
     else
       let s1 = s\<lparr>processedWinnings := insert gameId (processedWinnings s)\<rparr>
       in case getGameById gameId s1 of
            None \<Rightarrow>
              (SettleResult False ''game_not_found'',
               s1\<lparr>processedWinnings := processedWinnings s1 - {gameId}\<rparr>)
          | Some game \<Rightarrow>
              if winningTransactionExists gameId s1 then
                (SettleResult False ''already_processed_in_db'', s1)
              else if reason = ''network_issue'' \<or> reason = ''server_error'' then
                (case refundAll (g_participants game) (g_entryFee game) gameId s1 of
                   (True, s2) \<Rightarrow> (SettleResult True ''refunded_all_players'', s2)
                 | (False, s2) \<Rightarrow>
                     (SettleResult False ''processing_error'',
                      s2\<lparr>processedWinnings := processedWinnings s2 - {gameId}\<rparr>))
              else
                (case winnerId of
                   Some winner \<Rightarrow>
                     if winner \<noteq> [] \<and>
                        (reason = ''game_completed'' \<or> reason = ''opponent_quit'' \<or>
                         reason = ''opponent_eliminated'') then
                       (case creditWallet winner (g_prizePool game) ''GAME_WINNING''
                               (Some gameId) s1 of
                          (CreditOk b gb wb t, s2) \<Rightarrow>
                            (SettleResult True ''winner_credited'', s2)
                        | (CreditThrow e, s2) \<Rightarrow>
                            (SettleResult False ''processing_error'',
                             s2\<lparr>processedWinnings := processedWinnings s2 - {gameId}\<rparr>))
                     else
                       (SettleResult False ''invalid_winner_or_reason'',
                        s1\<lparr>processedWinnings := processedWinnings s1 - {gameId}\<rparr>)
                 | None \<Rightarrow>
                     (SettleResult False ''invalid_winner_or_reason'',
                      s1\<lparr>processedWinnings := processedWinnings s1 - {gameId}\<rparr>)))"

text \<open>The sum of the completed ledger entries of one kind for a session.\<close>

definition ledgerSum :: "sys \<Rightarrow> string \<Rightarrow> string \<Rightarrow> rat" where
  "ledgerSum s gameId kind =
     sum_list (map t_amount
       (filter (\<lambda>t. t_gameId t = Some gameId \<and> t_type t = kind \<and> t_status t = ''COMPLETED'')
          (transactions s)))"

text \<open>
  The balance check of \<open>joinQueue\<close> on the reported balances: the fee is positive and
  the sum of the two sub-balances, added as doubles, is below it.
\<close>

definition insufficient :: "sys \<Rightarrow> string \<Rightarrow> rat \<Rightarrow> bool" where
  "insufficient s u f \<longleftrightarrow>
     0 < f \<and> dadd (toDouble (playable s u)) (toDouble (withdrawable s u)) < toDouble f"

section \<open>Concrete instances\<close>

text \<open>
  Small concrete states on which the closed instances of the theorems are evaluated: a
  board with one card opened and selected and up to three players (the player on turn, the
  turn index and the lifelines of player \<open>B\<close> are parameters), a store with two funded
  users, a store with a user whose sub-balances are 0.70 and 0.10, waiting entries for
  party sizes two and three, and a game in progress.
\<close>

definition demo_board :: "card list" where
  "demo_board =
    [\<lparr>cid = 0, position = 0, symbol = [0xE2, 0x161, 0xBD], isFlipped = True, isMatched = False\<rparr>,
     \<lparr>cid = 3, position = 1, symbol = [0xF0, 0x178, 0xB8], isFlipped = False, isMatched = False\<rparr>,
     \<lparr>cid = 1, position = 2, symbol = [0xE2, 0x161, 0xBD], isFlipped = False, isMatched = False\<rparr>,
     \<lparr>cid = 2, position = 3, symbol = [0xF0, 0x178, 0xB8], isFlipped = False, isMatched = False\<rparr>]"

definition demo_players :: "player list" where
  "demo_players =
    [\<lparr>pid = ''A'', pname = ''Ann'', pposition = 0, score = 0\<rparr>,
     \<lparr>pid = ''B'', pname = ''Bob'', pposition = 1, score = 0\<rparr>,
     \<lparr>pid = ''C'', pname = ''Cy'', pposition = 2, score = 0\<rparr>]"

definition demo_game :: "player list \<Rightarrow> string \<Rightarrow> nat \<Rightarrow> int \<Rightarrow> gameState" where
  "demo_game ps turnId turnIndex life =
    \<lparr>board = demo_board,
     players = ps,
     currentTurnIndex = turnIndex,
     currentTurnPlayerId = turnId,
     selectedCards = [\<lparr>s_position = 0, s_symbol = [0xE2, 0x161, 0xBD], cardId = 0\<rparr>],
     scores = [''A'' \<mapsto> 0, ''B'' \<mapsto> 0, ''C'' \<mapsto> 0],
     lifelines = [''A'' \<mapsto> 3, ''B'' \<mapsto> life, ''C'' \<mapsto> 3],
     missedTurns = [''A'' \<mapsto> 0, ''B'' \<mapsto> 0, ''C'' \<mapsto> 0],
     matchedPairs = 0,
     totalPairs = 2,
     status = ''playing'',
     processingCards = False\<rparr>"

definition demo_sys :: sys where
  "demo_sys =
    \<lparr>users = [(''u1'', False), (''u2'', False)],
     wallets = [''u1'' \<mapsto> \<lparr>balance = 100, gameBalance = 30, withdrawableBalance = 70\<rparr>,
                ''u2'' \<mapsto> \<lparr>balance = 100, gameBalance = 100, withdrawableBalance = 0\<rparr>],
     transactions = [],
     matchmakingQueue = [],
     nextQueueId = 0,
     gameTable = [],
     ongoingDeductions = {},
     processedWinnings = {}\<rparr>"

definition demo_cents :: sys where
  "demo_cents =
     demo_sys\<lparr>users := [(''u3'', False)],
              wallets := [''u3'' \<mapsto>
                \<lparr>balance = 4 / 5, gameBalance = 7 / 10, withdrawableBalance = 1 / 10\<rparr>]\<rparr>"

definition entry_u1 :: queueEntry where
  "entry_u1 = \<lparr>q_id = 0, q_userId = ''u1'', q_gameType = ''MEMORY'', q_maxPlayers = 2,
                q_entryFee = 50\<rparr>"

definition entry_u2 :: queueEntry where
  "entry_u2 = \<lparr>q_id = 1, q_userId = ''u2'', q_gameType = ''MEMORY'', q_maxPlayers = 2,
                q_entryFee = 50\<rparr>"

definition entry_three :: queueEntry where
  "entry_three = \<lparr>q_id = 0, q_userId = ''u1'', q_gameType = ''MEMORY'', q_maxPlayers = 3,
                   q_entryFee = 50\<rparr>"

definition demo_queue :: "queueEntry list \<Rightarrow> sys" where
  "demo_queue waiting =
     demo_sys\<lparr>users := [(''u1'', False), (''u2'', False), (''bot1'', True)],
              matchmakingQueue := waiting,
              nextQueueId := 2\<rparr>"

definition demo_settle :: sys where
  "demo_settle =
     demo_sys\<lparr>gameTable :=
       [(''g1'', \<lparr>g_type = ''MEMORY'', g_maxPlayers = 2, g_entryFee = 50, g_prizePool = 80,
                  g_status = ''PLAYING'',
                  g_participants = [\<lparr>gp_userId = ''u1'', gp_position = 0, gp_score = 0\<rparr>,
                                    \<lparr>gp_userId = ''u2'', gp_position = 1, gp_score = 0\<rparr>]\<rparr>)]\<rparr>"

section \<open>Properties of the game board\<close>

subsection \<open>The shuffle permutes the cards\<close>

lemma fisher_yates_mset:
  "k < length cards \<Longrightarrow> mset (snd (fisher_yates k (sv, cards))) = mset cards"
proof (induction k arbitrary: sv cards)
  case 0
  then show ?case by simp
next
  case (Suc k)
  define sv' where "sv' = (sv * 16807) mod 2147483647"
  define j where "j = (sv' * (Suc k + 1)) div 2147483647"
  have "sv' < 2147483647" unfolding sv'_def by simp
  then have "(Suc k + 1) * sv' < (Suc k + 1) * 2147483647"
    by (rule mult_less_mono2) simp
  then have "sv' * (Suc k + 1) < (Suc k + 1) * 2147483647"
    by (metis mult.commute)
  then have "j < Suc k + 1" unfolding j_def
    by (rule less_mult_imp_div_less)
  with Suc.prems have j: "j < length cards" by simp
  let ?cs = "cards[Suc k := cards ! j, j := cards ! Suc k]"
  have sw: "mset ?cs = mset cards" using Suc.prems j by (simp add: mset_swap)
  have "k < length ?cs" using Suc.prems by simp
  from Suc.IH[OF this, of sv'] sw show ?case
    by (simp add: Let_def sv'_def j_def)
qed

lemma fisher_yates_length:
  "length (snd (fisher_yates k (sv, cards))) = length cards"
  by (induction k arbitrary: sv cards) (simp_all add: Let_def)

lemma shuffle_passes_mset:
  "cards \<noteq> [] \<Longrightarrow> mset (snd (shuffle_passes p (sv, cards))) = mset cards"
proof (induction p arbitrary: sv cards)
  case 0
  then show ?case by simp
next
  case (Suc p)
  obtain sv' cs' where fy: "fisher_yates (length cards - 1) (sv, cards) = (sv', cs')"
    by (cases "fisher_yates (length cards - 1) (sv, cards)")
  have m: "mset cs' = mset cards"
    using fisher_yates_mset[of "length cards - 1" cards sv] Suc.prems fy by simp
  then have "cs' \<noteq> []" using Suc.prems by auto
  from Suc.IH[OF this, of sv'] m fy show ?case by simp
qed

lemma update_positions_symbols: "map symbol (update_positions i cs) = map symbol cs"
  by (induction cs arbitrary: i) simp_all

lemma update_positions_length: "length (update_positions i cs) = length cs"
  by (induction cs arbitrary: i) simp_all

lemma update_positions_flags:
  "c \<in> set (update_positions i cs) \<Longrightarrow>
     \<exists>c0 \<in> set cs. symbol c = symbol c0 \<and> isFlipped c = isFlipped c0 \<and> isMatched c = isMatched c0"
  by (induction cs arbitrary: i) auto

lemma create_pairs_symbols:
  "map symbol (create_pairs i syms) = concat (map (\<lambda>s. [s, s]) syms)"
  by (induction syms arbitrary: i) simp_all

lemma create_pairs_flags:
  "c \<in> set (create_pairs i syms) \<Longrightarrow> symbol c \<in> set syms \<and> \<not> isFlipped c \<and> \<not> isMatched c"
  by (induction syms arbitrary: i) auto

lemma count_list_pairs:
  "count_list (concat (map (\<lambda>s. [s, s]) syms)) x = 2 * count_list syms x"
  by (induction syms) simp_all

lemma distinct_symbols: "distinct symbols"
  by (simp add: symbols_def)

lemma length_symbols: "length symbols = 15"
  by (simp add: symbols_def)

lemma count_list_map_filter:
  "count_list (map f cs) x = length (filter (\<lambda>c. f c = x) cs)"
  by (induction cs) simp_all

lemma count_list_distinct: "distinct xs \<Longrightarrow> x \<in> set xs \<Longrightarrow> count_list xs x = 1"
  by (induction xs) auto

lemma shuffled_symbols:
  "mset (map symbol (update_positions 0 (snd (shuffle_passes 3 (sd, create_pairs 0 symbols)))))
     = mset (map symbol (create_pairs 0 symbols))"
proof -
  have ne: "create_pairs 0 symbols \<noteq> []" by (simp add: symbols_def)
  have "mset (snd (shuffle_passes 3 (sd, create_pairs 0 symbols))) = mset (create_pairs 0 symbols)"
    by (rule shuffle_passes_mset[OF ne])
  then have "image_mset symbol (mset (snd (shuffle_passes 3 (sd, create_pairs 0 symbols))))
     = image_mset symbol (mset (create_pairs 0 symbols))" by simp
  then show ?thesis by (simp add: update_positions_symbols)
qed

lemma shuffled_count:
  "count_list (map symbol (update_positions 0 (snd (shuffle_passes 3 (sd, create_pairs 0 symbols))))) x
     = 2 * count_list symbols x"
proof -
  have "count (mset (map symbol (update_positions 0 (snd (shuffle_passes 3 (sd, create_pairs 0 symbols)))))) x
      = count (mset (map symbol (create_pairs 0 symbols))) x"
    by (simp only: shuffled_symbols)
  then show ?thesis
    by (simp only: count_mset create_pairs_symbols count_list_pairs)
qed

lemma shuffled_valid:
  "invalidSymbols (update_positions 0 (snd (shuffle_passes 3 (sd, create_pairs 0 symbols)))) = []"
proof -
  let ?cs = "update_positions 0 (snd (shuffle_passes 3 (sd, create_pairs 0 symbols)))"
  have "count_list (map symbol ?cs) x = 2" if "x \<in> set (map symbol ?cs)" for x
  proof -
    from that have "count_list (map symbol ?cs) x \<noteq> 0" by (simp only: count_list_0_iff not_not)
    then have "2 * count_list symbols x \<noteq> 0" unfolding shuffled_count .
    then have "count_list symbols x \<noteq> 0" by simp
    then have "x \<in> set symbols" by (simp add: count_list_0_iff)
    then show ?thesis
      by (simp only: shuffled_count count_list_distinct[OF distinct_symbols])
  qed
  then show ?thesis unfolding invalidSymbols_def by (simp add: filter_empty_conv)
qed

lemma shuffled_length:
  "length (update_positions 0 (snd (shuffle_passes 3 (sd, create_pairs 0 symbols)))) = 30"
proof -
  have "size (mset (map symbol (update_positions 0 (snd (shuffle_passes 3 (sd, create_pairs 0 symbols))))))
     = size (mset (map symbol (create_pairs 0 symbols)))"
    by (simp only: shuffled_symbols)
  then show ?thesis by (simp add: create_pairs_symbols symbols_def)
qed

lemma shuffled_flags:
  assumes "c \<in> set (update_positions 0 (snd (shuffle_passes 3 (sd, create_pairs 0 symbols))))"
  shows "symbol c \<in> set symbols \<and> \<not> isFlipped c \<and> \<not> isMatched c"
proof -
  from update_positions_flags[OF assms] obtain c0 where
    c0: "c0 \<in> set (snd (shuffle_passes 3 (sd, create_pairs 0 symbols)))"
    and eq: "symbol c = symbol c0" "isFlipped c = isFlipped c0" "isMatched c = isMatched c0"
    by blast
  have ne: "create_pairs 0 symbols \<noteq> []" by (simp add: symbols_def)
  have "set (snd (shuffle_passes 3 (sd, create_pairs 0 symbols))) = set (create_pairs 0 symbols)"
    using shuffle_passes_mset[OF ne, of 3 sd] by (rule mset_eq_setD)
  with c0 have "c0 \<in> set (create_pairs 0 symbols)" by simp
  from create_pairs_flags[OF this] eq show ?thesis by simp
qed

text \<open>
  Claim C9. For every room id the board built at session start has exactly 30 cards, each
  of the 15 (pairwise distinct) symbols is on exactly two cards, every card starts unflipped
  and unmatched, and for a non-empty room id the arrangement depends on the room id only
  (never on the clock).
\<close>

theorem createGameBoard_board:
  "\<exists>cards. createGameBoard roomId now = Inr cards
     \<and> length cards = 30
     \<and> length symbols = 15 \<and> distinct symbols
     \<and> (\<forall>smb \<in> set symbols. length (filter (\<lambda>c. symbol c = smb) cards) = 2)
     \<and> (\<forall>c \<in> set cards. symbol c \<in> set symbols \<and> \<not> isFlipped c \<and> \<not> isMatched c)
     \<and> (roomId \<noteq> [] \<longrightarrow> createGameBoard roomId now' = createGameBoard roomId now)"
proof -
  let ?cs = "update_positions 0 (snd (shuffle_passes 3 (seed_of roomId now, create_pairs 0 symbols)))"
  have r: "createGameBoard roomId now = Inr ?cs"
    by (simp add: createGameBoard_def Let_def shuffled_valid)
  have two: "\<forall>smb \<in> set symbols. length (filter (\<lambda>c. symbol c = smb) ?cs) = 2"
    by (simp only: count_list_map_filter[symmetric] shuffled_count)
       (simp add: count_list_distinct[OF distinct_symbols])
  have fl: "\<forall>c \<in> set ?cs. symbol c \<in> set symbols \<and> \<not> isFlipped c \<and> \<not> isMatched c"
    using shuffled_flags by blast
  have det: "roomId \<noteq> [] \<longrightarrow> createGameBoard roomId now' = createGameBoard roomId now"
    by (simp add: createGameBoard_def seed_of_def)
  from r shuffled_length two fl det length_symbols distinct_symbols show ?thesis by blast
qed

theorem createGameBoard_board_witness:
  "\<exists>cards. createGameBoard ''game1'' 7 = Inr cards
     \<and> length cards = 30
     \<and> length (filter (\<lambda>c. symbol c = [0xF0, 0x178, 0x192]) cards) = 2
     \<and> createGameBoard ''game1'' 99 = createGameBoard ''game1'' 7"
  using createGameBoard_board[of "''game1''" 7 99] by (auto simp: symbols_def)

section \<open>Properties of the session state machine\<close>

subsection \<open>Turn exclusivity\<close>



lemma selectCard_accepts_demo:
  "fst (selectCard [''g1'' \<mapsto> demo_game demo_players ''B'' 1 3] ''g1'' ''B'' (Some 1)) = Opened True"
  by (simp add: selectCard_def demo_game_def demo_board_def Let_def)

subsection \<open>Turn timeout\<close>

lemma flipBack_total:
  "\<forall>sel \<in> set sels. s_position sel < length b \<Longrightarrow> \<exists>b'. flipBack sels b = Some b'"
  by (induction sels arbitrary: b) simp_all

lemma flipBack_keeps:
  "flipBack sels b = Some b' \<Longrightarrow>
     length b' = length b \<and> (\<forall>p < length b. \<not> isFlipped (b ! p) \<longrightarrow> \<not> isFlipped (b' ! p))"
proof (induction sels arbitrary: b)
  case Nil
  then show ?case by simp
next
  case (Cons sel rest)
  let ?b1 = "b[s_position sel := (b ! s_position sel)\<lparr>isFlipped := False\<rparr>]"
  from Cons.prems have in_range: "s_position sel < length b" and
    rest: "flipBack rest ?b1 = Some b'"
    by (simp_all split: if_splits)
  from Cons.IH[OF rest] have len: "length b' = length b"
    and keep: "\<forall>p < length b. \<not> isFlipped (?b1 ! p) \<longrightarrow> \<not> isFlipped (b' ! p)"
    by simp_all
  have "\<not> isFlipped (b' ! p)" if "p < length b" "\<not> isFlipped (b ! p)" for p
  proof -
    have "\<not> isFlipped (?b1 ! p)" using that in_range
      by (cases "p = s_position sel") simp_all
    with keep that show ?thesis by simp
  qed
  with len show ?case by simp
qed

lemma flipBack_unflipped:
  "flipBack sels b = Some b' \<Longrightarrow> \<forall>sel \<in> set sels. \<not> isFlipped (b' ! s_position sel)"
proof (induction sels arbitrary: b)
  case Nil
  then show ?case by simp
next
  case (Cons sel rest)
  let ?b1 = "b[s_position sel := (b ! s_position sel)\<lparr>isFlipped := False\<rparr>]"
  from Cons.prems have in_range: "s_position sel < length b" and
    rest: "flipBack rest ?b1 = Some b'"
    by (simp_all split: if_splits)
  have "\<not> isFlipped (?b1 ! s_position sel)" using in_range by simp
  with flipBack_keeps[OF rest] in_range have "\<not> isFlipped (b' ! s_position sel)" by simp
  with Cons.IH[OF rest] show ?case by simp
qed

lemma find_Some_mem: "find P xs = Some x \<Longrightarrow> x \<in> set xs \<and> P x"
  by (induction xs) (auto split: if_splits)

text \<open>
  Claim C6, as amended. When the turn timer fires for the player on turn, who has
  \<open>l > 0\<close> lifelines, the player loses exactly one lifeline. With a lifeline left the
  players stay as they are, the selection is cleared and every selected card is flipped
  back. With the last lifeline the player is removed from the players, and then either
  exactly one player \<open>w\<close> remains and the game is ended at once with \<open>w\<close> as the winner
  (reason \<open>opponent_eliminated\<close>), or more than one remain, every selected card is flipped
  back and the turn passes to the player at the (adjusted) turn index.
\<close>

theorem handleTurnTimeout_lifeline:
  assumes cur: "find (\<lambda>p. pid p = currentTurnPlayerId g) (players g) = Some cp"
    and life: "lifelines g (pid cp) = Some l" "0 < l"
    and sel: "\<forall>sel \<in> set (selectedCards g). s_position sel < length (board g)"
  shows "(1 < l \<longrightarrow>
            (\<exists>g'. handleTurnTimeout g = Continue g' \<and>
                  lifelines g' (pid cp) = Some (l - 1) \<and> players g' = players g \<and>
                  selectedCards g' = [] \<and>
                  (\<forall>sel \<in> set (selectedCards g). \<not> isFlipped (board g' ! s_position sel)))) \<and>
         (l = 1 \<longrightarrow>
            (\<forall>w. filter (\<lambda>p. pid p \<noteq> pid cp) (players g) = [w] \<longrightarrow>
               (\<exists>gEnd. handleTurnTimeout g = Ended (Some (pid w)) ''opponent_eliminated'' gEnd \<and>
                       players gEnd = [w])) \<and>
            (1 < length (filter (\<lambda>p. pid p \<noteq> pid cp) (players g)) \<longrightarrow>
               (\<exists>g'. handleTurnTimeout g = Continue g' \<and>
                     players g' = filter (\<lambda>p. pid p \<noteq> pid cp) (players g) \<and>
                     lifelines g' (pid cp) = None \<and>
                     currentTurnIndex g' < length (players g') \<and>
                     currentTurnPlayerId g' = pid (players g' ! currentTurnIndex g') \<and>
                     (\<forall>sel \<in> set (selectedCards g). \<not> isFlipped (board g' ! s_position sel)))))"
proof -
  from find_Some_mem[OF cur] have cp_in: "cp \<in> set (players g)" by simp
  then have ne: "players g \<noteq> []" by auto
  from flipBack_total[OF sel] obtain b' where fb: "flipBack (selectedCards g) (board g) = Some b'"
    by blast
  note unfl = flipBack_unflipped[OF fb]
  have ex: "list_ex (\<lambda>p. pid p = pid cp) (players g)"
    using cp_in by (auto simp: list_ex_iff)
  have nex: "\<not> list_ex (\<lambda>p. pid p = pid cp) (filter (\<lambda>p. pid p \<noteq> pid cp) (players g))"
    by (auto simp: list_ex_iff)
  have A: ?thesis if "1 < l"
    using that cur life fb unfl ex ne
    by (simp add: handleTurnTimeout_def lifelineStep_def Let_def nextTurn_def)
  have B: ?thesis if l1: "l = 1"
  proof -
    have one: "\<exists>gEnd. handleTurnTimeout g = Ended (Some (pid w)) ''opponent_eliminated'' gEnd \<and>
                       players gEnd = [w]"
      if "filter (\<lambda>p. pid p \<noteq> pid cp) (players g) = [w]" for w
      using that cur life l1
      by (simp add: handleTurnTimeout_def lifelineStep_def Let_def removePlayer_def
                    endGame_def endGame_winnerId_def)
    have more: "\<exists>g'. handleTurnTimeout g = Continue g' \<and>
                     players g' = filter (\<lambda>p. pid p \<noteq> pid cp) (players g) \<and>
                     lifelines g' (pid cp) = None \<and>
                     currentTurnIndex g' < length (players g') \<and>
                     currentTurnPlayerId g' = pid (players g' ! currentTurnIndex g') \<and>
                     (\<forall>sel \<in> set (selectedCards g). \<not> isFlipped (board g' ! s_position sel))"
      if gt: "1 < length (filter (\<lambda>p. pid p \<noteq> pid cp) (players g))"
    proof -
      from gt have fne: "filter (\<lambda>p. pid p \<noteq> pid cp) (players g) \<noteq> []" by auto
      from gt have n1: "length (filter (\<lambda>p. pid p \<noteq> pid cp) (players g)) \<noteq> 1" by simp
      show ?thesis
      using cur life l1 fb unfl nex fne n1
      by (simp add: handleTurnTimeout_def lifelineStep_def Let_def removePlayer_def)
    qed
    from one more l1 show ?thesis by simp
  qed
  from life A B show ?thesis by (cases "l = 1") auto
qed

theorem handleTurnTimeout_lifeline_witness:
  "(\<exists>gEnd. handleTurnTimeout (demo_game (take 2 demo_players) ''B'' 1 1)
             = Ended (Some ''A'') ''opponent_eliminated'' gEnd \<and>
           players gEnd = take 1 demo_players) \<and>
   (\<exists>g'. handleTurnTimeout (demo_game demo_players ''B'' 1 1) = Continue g' \<and>
         players g' = [demo_players ! 0, demo_players ! 2] \<and> lifelines g' ''B'' = None \<and>
         \<not> isFlipped (board g' ! 0)) \<and>
   (\<exists>g'. handleTurnTimeout (demo_game demo_players ''B'' 1 3) = Continue g' \<and>
         lifelines g' ''B'' = Some 2 \<and> players g' = demo_players \<and>
         selectedCards g' = [] \<and> \<not> isFlipped (board g' ! 0))"
proof -
  let ?a = "demo_players ! 0" and ?b = "demo_players ! 1"
  have two: "\<exists>gEnd. handleTurnTimeout (demo_game (take 2 demo_players) ''B'' 1 1)
             = Ended (Some ''A'') ''opponent_eliminated'' gEnd \<and>
           players gEnd = take 1 demo_players"
    using handleTurnTimeout_lifeline[of "demo_game (take 2 demo_players) ''B'' 1 1" ?b 1]
    by (simp add: demo_game_def demo_players_def demo_board_def)
  have three1: "\<exists>g'. handleTurnTimeout (demo_game demo_players ''B'' 1 1) = Continue g' \<and>
         players g' = [demo_players ! 0, demo_players ! 2] \<and> lifelines g' ''B'' = None \<and>
         \<not> isFlipped (board g' ! 0)"
    using handleTurnTimeout_lifeline[of "demo_game demo_players ''B'' 1 1" ?b 1]
    by (auto simp: demo_game_def demo_players_def demo_board_def)
  have three3: "\<exists>g'. handleTurnTimeout (demo_game demo_players ''B'' 1 3) = Continue g' \<and>
         lifelines g' ''B'' = Some 2 \<and> players g' = demo_players \<and>
         selectedCards g' = [] \<and> \<not> isFlipped (board g' ! 0)"
    using handleTurnTimeout_lifeline[of "demo_game demo_players ''B'' 1 3" ?b 3]
    by (simp add: demo_game_def demo_players_def demo_board_def)
  from two three1 three3 show ?thesis by blast
qed

text \<open>
  Claim C6 as stated fails when the timeout ends the game: the handler returns from the
  elimination branch before the loop that flips the selected cards back, so the state handed
  to the final update still has the selected card face up.
\<close>

theorem handleTurnTimeout_ended_counterexample:
  "\<exists>gEnd. handleTurnTimeout (demo_game (take 2 demo_players) ''B'' 1 1)
            = Ended (Some ''A'') ''opponent_eliminated'' gEnd \<and>
          map s_position (selectedCards gEnd) = [0] \<and> isFlipped (board gEnd ! 0)"
  by (simp add: handleTurnTimeout_def lifelineStep_def removePlayer_def endGame_def
                endGame_winnerId_def demo_game_def demo_players_def demo_board_def Let_def)

text \<open>
  On the elimination path with players remaining the cards are flipped back on the board,
  but the list of selected cards is not reset (only \<open>nextTurn\<close> resets it).
\<close>

lemma handleTurnTimeout_elimination_keeps_selection:
  "\<exists>g'. handleTurnTimeout (demo_game demo_players ''B'' 1 1) = Continue g' \<and>
        currentTurnPlayerId g' = ''C'' \<and>
        selectedCards g' = selectedCards (demo_game demo_players ''B'' 1 1) \<and>
        length (selectedCards g') = 1"
  by (simp add: handleTurnTimeout_def lifelineStep_def removePlayer_def demo_game_def
                demo_players_def demo_board_def Let_def)

subsection \<open>The turn invariant\<close>

text \<open>
  Claim C10. The turn invariant does not survive \<open>handlePlayerExit\<close> in a game of three:
  when \<open>A\<close> leaves while it is \<open>B\<close>'s turn (index 1), the game goes on with players
  \<open>B, C\<close>, turn index 1 and turn player \<open>B\<close>, but the player at index 1 is \<open>C\<close>; when
  \<open>A\<close> leaves while it is \<open>C\<close>'s turn (index 2), the index 2 is outside the two
  remaining players.
\<close>

theorem handlePlayerExit_breaks_turn_inv:
  "turn_inv (demo_game demo_players ''B'' 1 3) \<and>
   status (demo_game demo_players ''B'' 1 3) = ''playing'' \<and>
   (\<exists>g'. handlePlayerExit (demo_game demo_players ''B'' 1 3) ''A'' ''left'' = Continue g' \<and>
         status g' = ''playing'' \<and>
         map pid (players g') = [''B'', ''C''] \<and>
         currentTurnIndex g' = 1 \<and> currentTurnPlayerId g' = ''B'' \<and>
         \<not> turn_inv g') \<and>
   (\<exists>g'. handlePlayerExit (demo_game demo_players ''C'' 2 3) ''A'' ''left'' = Continue g' \<and>
         length (players g') = 2 \<and> currentTurnIndex g' = 2 \<and> \<not> turn_inv g')"
  by (simp add: handlePlayerExit_def demo_game_def demo_players_def turn_inv_def
                removePlayer_def Let_def)

text \<open>The other handlers modelled here keep the invariant.\<close>

lemma nextTurn_turn_inv: "nextTurn g = Some g' \<Longrightarrow> turn_inv g'"
  by (auto simp: nextTurn_def turn_inv_def Let_def split: if_splits)

lemma selectCard_turn_inv:
  assumes "games gameId = Some g" "turn_inv g"
    and "selectCard games gameId playerId pos = (r, games')"
  shows "\<exists>g'. games' gameId = Some g' \<and> turn_inv g'"
  using assms
  by (auto simp: selectCard_def turn_inv_def Let_def split: if_splits option.splits)

lemma handleTurnTimeout_turn_inv:
  assumes "turn_inv g" "handleTurnTimeout g = Continue g'"
  shows "turn_inv g'"
proof -
  let ?cp = "find (\<lambda>p. pid p = currentTurnPlayerId g) (players g)"
  from assms(2) obtain g1 b where
    ls: "lifelineStep ?cp g = Inr g1" and fb: "flipBack (selectedCards g1) (board g1) = Some b"
    by (auto simp: handleTurnTimeout_def Let_def endGame_def split: sum.splits option.splits)
  have sel1: "length (selectedCards g1) \<le> 2"
    using ls assms(1)
    by (auto simp: lifelineStep_def turn_inv_def Let_def removePlayer_def
             split: option.splits if_splits)
  show ?thesis
    using assms(2) ls fb sel1 nextTurn_turn_inv[of "g1\<lparr>board := b\<rparr>"]
    by (auto simp: handleTurnTimeout_def Let_def turn_inv_def split: option.splits if_splits)
qed

section \<open>Properties of the ledger\<close>

subsection \<open>The double model\<close>







subsection \<open>Doubles of the amounts used below\<close>


lemma demo_doubles:
  "toDouble 10 = 10" "toDouble 30 = 30" "toDouble 50 = 50" "toDouble 70 = 70"
  "toDouble 100 = 100" "toDouble 150 = 150"
  by code_simp+

text \<open>
  The doubles nearest to 0.7, 0.1 and 0.8, and the sum of the first two as JavaScript
  computes it: 0.7999999999999999, one unit in the last place below the double 0.8.
\<close>

lemma cents_doubles:
  "toDouble (7 / 10) = 3152519739159347 / 4503599627370496"
  "toDouble (1 / 10) = 3602879701896397 / 36028797018963968"
  "toDouble (4 / 5) = 3602879701896397 / 4503599627370496"
  "dadd (toDouble (7 / 10)) (toDouble (1 / 10)) = 7205759403792793 / 9007199254740992"
  by code_simp+

lemma cents_below: "dadd (toDouble (7 / 10)) (toDouble (1 / 10)) < toDouble (4 / 5)"
  by code_simp

subsection \<open>Wallets\<close>

lemma getWallet_balances:
  "getWallet u s = (w, s') \<Longrightarrow>
     gameBalance w = playable s u \<and> withdrawableBalance w = withdrawable s u \<and>
     wallets s' u = Some w \<and> playable s' = playable s \<and> withdrawable s' = withdrawable s \<and>
     transactions s' = transactions s \<and> ongoingDeductions s' = ongoingDeductions s \<and>
     processedWinnings s' = processedWinnings s \<and> gameTable s' = gameTable s \<and>
     matchmakingQueue s' = matchmakingQueue s \<and> users s' = users s \<and>
     nextQueueId s' = nextQueueId s"
  by (auto simp: getWallet_def playable_def withdrawable_def Let_def fun_eq_iff
           split: option.splits if_splits)

subsection \<open>Entry-fee debit\<close>

text \<open>
  The first debit of a positive entry fee for an (account, session) key, in terms of the
  test the code makes: the call fails with \<open>Insufficient balance\<close> exactly when the sum of
  the two sub-balances, added as doubles, is below the amount as a double, and then leaves
  sub-balances and ledger as they were; otherwise it succeeds, takes the amount from the
  playable (game) balance when the amount is at most that balance (compared as doubles) and
  else empties the playable balance and takes the remainder from the withdrawable balance,
  appends one COMPLETED \<open>GAME_ENTRY\<close> entry for the key (the only one), and lowers the sum of
  the sub-balances by exactly the amount.
\<close>

lemma deductGameEntry_first_debit:
  assumes pos: "0 < amount"
    and idle: "userId @ ''_'' @ gameId \<notin> ongoingDeductions s"
    and first: "gameEntryTransactions userId gameId s = []"
  shows "(fst (deductGameEntry userId amount gameId s) = DeductFail ''Insufficient balance''
            \<longleftrightarrow> dadd (toDouble (playable s userId)) (toDouble (withdrawable s userId))
                  < toDouble amount) \<and>
         (dadd (toDouble (playable s userId)) (toDouble (withdrawable s userId))
            < toDouble amount \<longrightarrow>
            (let s' = snd (deductGameEntry userId amount gameId s)
             in playable s' = playable s \<and> withdrawable s' = withdrawable s \<and>
                transactions s' = transactions s)) \<and>
         (\<not> dadd (toDouble (playable s userId)) (toDouble (withdrawable s userId))
              < toDouble amount \<longrightarrow>
            (\<exists>b i s'. deductGameEntry userId amount gameId s
                         = (DeductOk b (playable s' userId) (withdrawable s' userId) i, s') \<and>
               playable s' userId =
                 (if toDouble amount \<le> toDouble (playable s userId)
                  then playable s userId - amount else 0) \<and>
               withdrawable s' userId =
                 (if toDouble amount \<le> toDouble (playable s userId) then withdrawable s userId
                  else withdrawable s userId - (amount - playable s userId)) \<and>
               playable s' userId + withdrawable s' userId
                 = playable s userId + withdrawable s userId - amount \<and>
               transactions s' = transactions s @
                 [\<lparr>t_id = i, t_userId = userId, t_type = ''GAME_ENTRY'', t_amount = amount,
                   t_status = ''COMPLETED'', t_gameId = Some gameId\<rparr>] \<and>
               length (completedEntries s' userId gameId ''GAME_ENTRY'') = 1))"
proof -
  obtain w sw where gw: "getWallet userId
      (s\<lparr>ongoingDeductions := insert (userId @ ''_'' @ gameId) (ongoingDeductions s)\<rparr>) = (w, sw)"
    by (cases "getWallet userId
      (s\<lparr>ongoingDeductions := insert (userId @ ''_'' @ gameId) (ongoingDeductions s)\<rparr>)")
  let ?s0 = "s\<lparr>ongoingDeductions := insert (userId @ ''_'' @ gameId) (ongoingDeductions s)\<rparr>"
  have p0: "playable ?s0 = playable s" "withdrawable ?s0 = withdrawable s"
    by (simp_all add: playable_def withdrawable_def fun_eq_iff)
  from getWallet_balances[OF gw] p0 have
    w: "gameBalance w = playable s userId" "withdrawableBalance w = withdrawable s userId"
    and sw: "wallets sw userId = Some w" "playable sw = playable s" "withdrawable sw = withdrawable s"
      "transactions sw = transactions s"
    by simp_all
  have e0: "gameEntryTransactions userId gameId ?s0 = []"
    using first by (simp add: gameEntryTransactions_def)
  have esw: "gameEntryTransactions userId gameId sw = []"
    using first sw by (simp add: gameEntryTransactions_def)
  have ce: "completedEntries s userId gameId ''GAME_ENTRY'' = []"
    using first by (auto simp: gameEntryTransactions_def completedEntries_def filter_empty_conv)
  show ?thesis
  proof (cases "dadd (toDouble (playable s userId)) (toDouble (withdrawable s userId))
                  < toDouble amount")
    case True
    then show ?thesis
      using pos idle e0 gw w sw
      by (simp add: deductGameEntry_def Let_def playable_def withdrawable_def fun_eq_iff)
  next
    case False
    then show ?thesis
      using pos idle e0 esw gw w sw ce
      by (simp add: deductGameEntry_def deductTransaction_def Let_def playable_def
                    withdrawable_def completedEntries_def)
  qed
qed

text \<open>
  Claim C3. The debit is to fail exactly when playable + withdrawable is below the amount.
  The code adds the two sub-balances as doubles, so it also fails for funds that equal the
  amount: a wallet with playable 0.70 and withdrawable 0.10 holds exactly 0.80, yet the
  debit of 0.80 returns \<open>Insufficient balance\<close> and leaves the store as it was, because
  0.7 + 0.1 is 0.7999999999999999 in doubles, which is below 0.8.
\<close>

theorem deductGameEntry_refuses_exact_funds:
  "playable demo_cents ''u3'' + withdrawable demo_cents ''u3'' = 4 / 5 \<and>
   gameEntryTransactions ''u3'' ''g1'' demo_cents = [] \<and>
   deductGameEntry ''u3'' (4 / 5) ''g1'' demo_cents
     = (DeductFail ''Insufficient balance'', demo_cents)"
  using cents_below
  by (simp add: deductGameEntry_def getWallet_def gameEntryTransactions_def playable_def
                withdrawable_def demo_cents_def demo_sys_def Let_def)

lemma deductGameEntry_ok_state:
  assumes "deductGameEntry u a g s = (DeductOk b gb wb i, s1)"
  shows "u @ ''_'' @ g \<notin> ongoingDeductions s1 \<and> gameEntryTransactions u g s1 \<noteq> [] \<and> 0 < a"
  using assms
  by (auto simp: deductGameEntry_def deductTransaction_def Let_def gameEntryTransactions_def
                 getWallet_def
           split: if_splits option.splits prod.splits)

subsection \<open>Repeated ledger operations\<close>

text \<open>
  Claim C2, as amended. After a successful entry-fee debit, a second debit for the same
  (account, session) key is a no-op on the store, but it does not return the prior result:
  it returns the failure \<open>Entry fee already deducted for this game\<close>. A credit has no guard
  by key: every credit of a positive amount, of any kind, appends one more COMPLETED entry
  for its key and adds the amount to the balance again.
\<close>

theorem ledger_retry:
  "(deductGameEntry u a g s = (DeductOk b gb wb i, s1) \<and> 0 < a' \<longrightarrow>
      deductGameEntry u a' g s1 = (DeductFail ''Entry fee already deducted for this game'', s1)) \<and>
   (0 < a \<longrightarrow>
      (\<exists>r s2. creditWallet u a k (Some g) s = (r, s2) \<and>
              length (completedEntries s2 u g k) = Suc (length (completedEntries s u g k)) \<and>
              (\<exists>w. wallets s2 u = Some w \<and>
                  balance w = (case wallets s u of None \<Rightarrow> 0 | Some w0 \<Rightarrow> balance w0) + a)))"
proof -
  have d: "deductGameEntry u a' g s1 = (DeductFail ''Entry fee already deducted for this game'', s1)"
    if ok: "deductGameEntry u a g s = (DeductOk b gb wb i, s1)" and pos: "0 < a'"
  proof -
    from deductGameEntry_ok_state[OF ok] have
      idle: "u @ ''_'' @ g \<notin> ongoingDeductions s1" and ex: "gameEntryTransactions u g s1 \<noteq> []"
      by simp_all
    have ex0: "gameEntryTransactions u g
        (s1\<lparr>ongoingDeductions := insert (u @ ''_'' @ g) (ongoingDeductions s1)\<rparr>) \<noteq> []"
      using ex by (simp add: gameEntryTransactions_def)
    show ?thesis using pos idle ex0 by (simp add: deductGameEntry_def Let_def)
  qed
  have c: "\<exists>r s2. creditWallet u a k (Some g) s = (r, s2) \<and>
              length (completedEntries s2 u g k) = Suc (length (completedEntries s u g k)) \<and>
              (\<exists>w. wallets s2 u = Some w \<and>
                  balance w = (case wallets s u of None \<Rightarrow> 0 | Some w0 \<Rightarrow> balance w0) + a)"
    if "0 < a"
    using that
    by (auto simp: creditWallet_def getWallet_def completedEntries_def Let_def
             split: option.splits)
  from d c show ?thesis by blast
qed

theorem ledger_retry_witness:
  "deductGameEntry ''u1'' 50 ''g1'' (snd (deductGameEntry ''u1'' 50 ''g1'' demo_sys))
     = (DeductFail ''Entry fee already deducted for this game'',
        snd (deductGameEntry ''u1'' 50 ''g1'' demo_sys)) \<and>
   (\<exists>r s2. creditWallet ''u1'' 50 ''REFUND'' (Some ''g1'') demo_sys = (r, s2) \<and>
      length (completedEntries s2 ''u1'' ''g1'' ''REFUND'') = 1)"
proof -
  obtain b gb wb i s1 where ok: "deductGameEntry ''u1'' 50 ''g1'' demo_sys = (DeductOk b gb wb i, s1)"
    by (auto simp: deductGameEntry_def deductTransaction_def Let_def gameEntryTransactions_def
                 getWallet_def demo_sys_def dadd_def demo_doubles)
  from ledger_retry[of "''u1''" 50 "''g1''" demo_sys b gb wb i s1 50 "''REFUND''"] ok
  show ?thesis by (auto simp: completedEntries_def demo_sys_def)
qed

text \<open>
  Claim C2 as stated fails: two credits with the same (account, session, kind) key leave two
  COMPLETED entries and raise the playable balance twice (30, then 80, then 130), and the
  second debit does not return the result of the first.
\<close>

theorem credit_retry_counterexample:
  "length (completedEntries
      (snd (creditWallet ''u1'' 50 ''REFUND'' (Some ''g1'')
         (snd (creditWallet ''u1'' 50 ''REFUND'' (Some ''g1'') demo_sys))))
      ''u1'' ''g1'' ''REFUND'') = 2 \<and>
   playable (snd (creditWallet ''u1'' 50 ''REFUND'' (Some ''g1'') demo_sys)) ''u1'' = 80 \<and>
   playable
     (snd (creditWallet ''u1'' 50 ''REFUND'' (Some ''g1'')
        (snd (creditWallet ''u1'' 50 ''REFUND'' (Some ''g1'') demo_sys)))) ''u1'' = 130 \<and>
   fst (deductGameEntry ''u1'' 50 ''g1'' demo_sys) = DeductOk 50 0 50 0 \<and>
   fst (deductGameEntry ''u1'' 50 ''g1'' (snd (deductGameEntry ''u1'' 50 ''g1'' demo_sys)))
     = DeductFail ''Entry fee already deducted for this game''"
  by (simp add: creditWallet_def deductGameEntry_def deductTransaction_def getWallet_def
                completedEntries_def gameEntryTransactions_def playable_def demo_sys_def Let_def
                dadd_def demo_doubles)

section \<open>Properties of the matchmaking queue\<close>

lemma find_None_filter: "find P xs = None \<Longrightarrow> filter P xs = []"
  by (induction xs) (auto split: if_splits)






text \<open>
  The balance check of \<open>joinQueue\<close> refuses a balance that equals the fee when the double
  sum falls short: with sub-balances 0.70 and 0.10 a join for the fee 0.80 throws.
\<close>

lemma joinQueue_refuses_exact_funds:
  "insufficient demo_cents ''u3'' (4 / 5) \<and>
   joinQueue ''u3'' ''MEMORY'' 2 (4 / 5) demo_cents
     = (JoinThrow ''Insufficient balance'', demo_cents)"
  using cents_below
  by (simp add: joinQueue_def insufficient_def getWallet_def playable_def withdrawable_def
                demo_cents_def demo_sys_def Let_def)

lemma getBotForMatchmaking_queue:
  "\<exists>b. fst (getBotForMatchmaking newId gt f s) = b \<and>
       matchmakingQueue (snd (getBotForMatchmaking newId gt f s)) =
         matchmakingQueue s @
           [\<lparr>q_id = nextQueueId s, q_userId = b, q_gameType = gt, q_maxPlayers = 2,
             q_entryFee = f\<rparr>] \<and>
       (b, True) \<in> set (users (snd (getBotForMatchmaking newId gt f s)))"
proof -
  define pick where "pick =
    (case find (botAvailable s) (users s) of
       Some u \<Rightarrow> (fst u, s)
     | None \<Rightarrow>
         (newId,
          s\<lparr>users := users s @ [(newId, True)],
            wallets := (wallets s)(newId \<mapsto>
              \<lparr>balance = 1000, gameBalance = 1000, withdrawableBalance = 0\<rparr>)\<rparr>))"
  obtain b s1 where p: "pick = (b, s1)" by (cases pick)
  have s1: "matchmakingQueue s1 = matchmakingQueue s \<and> nextQueueId s1 = nextQueueId s \<and>
            (b, True) \<in> set (users s1)"
  proof (cases "find (botAvailable s) (users s)")
    case None
    with p show ?thesis by (auto simp: pick_def)
  next
    case (Some u)
    from find_Some_mem[OF Some] have mem: "u \<in> set (users s)" and bot: "snd u"
      by (simp_all add: botAvailable_def)
    from bot have "u = (fst u, True)" by (simp add: prod_eq_iff)
    with mem have "(fst u, True) \<in> set (users s)" by simp
    with p Some show ?thesis by (auto simp: pick_def)
  qed
  define s2 where "s2 =
    (case wallets s1 b of
       None \<Rightarrow> s1
     | Some w \<Rightarrow>
         if 0 < f \<and> gameBalance w < f then
           s1\<lparr>wallets := (wallets s1)(b \<mapsto>
                w\<lparr>gameBalance := gameBalance w + max 1000 (f * 10),
                  balance := balance w + max 1000 (f * 10)\<rparr>)\<rparr>
         else s1)"
  have s2: "matchmakingQueue s2 = matchmakingQueue s1 \<and> nextQueueId s2 = nextQueueId s1 \<and>
            users s2 = users s1"
    by (simp add: s2_def split: option.splits)
  have "getBotForMatchmaking newId gt f s =
    (b, s2\<lparr>matchmakingQueue := matchmakingQueue s2 @
               [\<lparr>q_id = nextQueueId s2, q_userId = b, q_gameType = gt,
                 q_maxPlayers = 2, q_entryFee = f\<rparr>],
            nextQueueId := Suc (nextQueueId s2)\<rparr>)"
    unfolding getBotForMatchmaking_def pick_def[symmetric] p
    by (simp add: Let_def s2_def)
  with s1 s2 show ?thesis by simp
qed

text \<open>
  The backfill callback, for every party size. When it runs for a pool key with
  \<open>0 < count < partySize\<close> and at least one waiting entry of a non-bot user, exactly one
  waiting entry is appended, its user is a bot, and a matchmaking pass is scheduled; in
  every other case (count 0, count at least the party size, or bots only) the store is
  unchanged and nothing is scheduled. The bot's entry is always filed with party size 2:
  it counts for the pool key of the timer when the party size is 2, and for no other party
  size, where the count of the timer's pool key stays as it was and the pool of party
  size 2 grows instead.
\<close>

lemma deployBotIfNeeded_backfill:
  "(0 < queueCount gt n f s \<and> queueCount gt n f s < n \<and> 0 < humanPlayersCount gt n f s \<longrightarrow>
      (\<exists>s' b. deployBotIfNeeded newId gt n f s = (True, s') \<and>
         matchmakingQueue s' = matchmakingQueue s @
           [\<lparr>q_id = nextQueueId s, q_userId = b, q_gameType = gt, q_maxPlayers = 2,
             q_entryFee = f\<rparr>] \<and>
         (b, True) \<in> set (users s') \<and>
         (n = 2 \<longrightarrow> queueCount gt n f s' = Suc (queueCount gt n f s)))) \<and>
   (\<not> (0 < queueCount gt n f s \<and> queueCount gt n f s < n \<and> 0 < humanPlayersCount gt n f s) \<longrightarrow>
      deployBotIfNeeded newId gt n f s = (False, s))"
proof -
  from getBotForMatchmaking_queue[of newId gt f s] obtain b where
    b: "matchmakingQueue (snd (getBotForMatchmaking newId gt f s)) =
         matchmakingQueue s @
           [\<lparr>q_id = nextQueueId s, q_userId = b, q_gameType = gt, q_maxPlayers = 2,
             q_entryFee = f\<rparr>]"
       "(b, True) \<in> set (users (snd (getBotForMatchmaking newId gt f s)))"
    by blast
  have cnt: "n = 2 \<longrightarrow> queueCount gt n f (snd (getBotForMatchmaking newId gt f s))
      = Suc (queueCount gt n f s)"
    using b(1) by (simp add: queueCount_def sameQueue_def)
  show ?thesis
    using b cnt by (auto simp: deployBotIfNeeded_def Let_def)
qed

lemma deployBotIfNeeded_backfill_demo:
  "(\<exists>s'. deployBotIfNeeded ''bot2'' ''MEMORY'' 2 50 (demo_queue [entry_u1]) = (True, s') \<and>
      map q_userId (matchmakingQueue s') = [''u1'', ''bot1''] \<and>
      queueCount ''MEMORY'' 2 50 s' = 2) \<and>
   deployBotIfNeeded ''bot2'' ''MEMORY'' 2 50 (demo_queue [entry_u1, entry_u2])
     = (False, demo_queue [entry_u1, entry_u2]) \<and>
   deployBotIfNeeded ''bot2'' ''MEMORY'' 2 50 (demo_queue []) = (False, demo_queue [])"
proof -
  note defs = queueCount_def humanPlayersCount_def sameQueue_def demo_queue_def demo_sys_def
    entry_u1_def entry_u2_def
  have one: "\<exists>s'. deployBotIfNeeded ''bot2'' ''MEMORY'' 2 50 (demo_queue [entry_u1]) = (True, s') \<and>
      map q_userId (matchmakingQueue s') = [''u1'', ''bot1''] \<and>
      queueCount ''MEMORY'' 2 50 s' = 2"
  proof -
    have h: "0 < queueCount ''MEMORY'' 2 50 (demo_queue [entry_u1]) \<and>
        queueCount ''MEMORY'' 2 50 (demo_queue [entry_u1]) < 2 \<and>
        0 < humanPlayersCount ''MEMORY'' 2 50 (demo_queue [entry_u1])"
      by (simp add: defs)
    have q1: "queueCount ''MEMORY'' 2 50 (demo_queue [entry_u1]) = 1"
      by (simp add: defs)
    from deployBotIfNeeded_backfill[of "''MEMORY''" 2 50 "demo_queue [entry_u1]" "''bot2''"] h
    obtain s' b where r: "deployBotIfNeeded ''bot2'' ''MEMORY'' 2 50 (demo_queue [entry_u1]) = (True, s')"
      and c: "queueCount ''MEMORY'' 2 50 s' = Suc (queueCount ''MEMORY'' 2 50 (demo_queue [entry_u1]))"
      by auto
    have "map q_userId (matchmakingQueue
        (snd (deployBotIfNeeded ''bot2'' ''MEMORY'' 2 50 (demo_queue [entry_u1])))) = [''u1'', ''bot1'']"
      by (simp add: deployBotIfNeeded_def getBotForMatchmaking_def botAvailable_def defs Let_def)
    then have "map q_userId (matchmakingQueue s') = [''u1'', ''bot1'']" by (simp add: r)
    with r c q1 show ?thesis by simp
  qed
  have hfull: "\<not> (0 < queueCount ''MEMORY'' 2 50 (demo_queue [entry_u1, entry_u2]) \<and>
        queueCount ''MEMORY'' 2 50 (demo_queue [entry_u1, entry_u2]) < 2 \<and>
        0 < humanPlayersCount ''MEMORY'' 2 50 (demo_queue [entry_u1, entry_u2]))"
    by (simp add: defs)
  have full: "deployBotIfNeeded ''bot2'' ''MEMORY'' 2 50 (demo_queue [entry_u1, entry_u2])
     = (False, demo_queue [entry_u1, entry_u2])"
    using deployBotIfNeeded_backfill[of "''MEMORY''" 2 50 "demo_queue [entry_u1, entry_u2]" "''bot2''"]
      hfull by blast
  have hempty: "\<not> (0 < queueCount ''MEMORY'' 2 50 (demo_queue []) \<and>
        queueCount ''MEMORY'' 2 50 (demo_queue []) < 2 \<and>
        0 < humanPlayersCount ''MEMORY'' 2 50 (demo_queue []))"
    by (simp add: defs)
  have empty: "deployBotIfNeeded ''bot2'' ''MEMORY'' 2 50 (demo_queue []) = (False, demo_queue [])"
    using deployBotIfNeeded_backfill[of "''MEMORY''" 2 50 "demo_queue []" "''bot2''"]
      hempty by blast
  from one full empty show ?thesis by blast
qed

lemma deployBotIfNeeded_other_party_size:
  assumes "0 < queueCount gt n f s" "queueCount gt n f s < n" "0 < humanPlayersCount gt n f s"
    and "n \<noteq> 2"
  shows "fst (deployBotIfNeeded newId gt n f s) \<and>
         queueCount gt n f (snd (deployBotIfNeeded newId gt n f s)) = queueCount gt n f s \<and>
         queueCount gt 2 f (snd (deployBotIfNeeded newId gt n f s)) = Suc (queueCount gt 2 f s)"
proof -
  from getBotForMatchmaking_queue[of newId gt f s] obtain b where
    b: "matchmakingQueue (snd (getBotForMatchmaking newId gt f s)) =
         matchmakingQueue s @
           [\<lparr>q_id = nextQueueId s, q_userId = b, q_gameType = gt, q_maxPlayers = 2,
             q_entryFee = f\<rparr>]"
    by blast
  have r: "deployBotIfNeeded newId gt n f s = (True, snd (getBotForMatchmaking newId gt f s))"
    using assms(1-3) by (simp add: deployBotIfNeeded_def Let_def)
  show ?thesis
    unfolding r using b assms(4) by (simp add: queueCount_def sameQueue_def)
qed

text \<open>
  Claim C8. The backfill is to put one synthetic participant into the pool whose timer
  fired. The code files the bot's entry with party size 2 whatever the pool: when the timer
  of the pool (MEMORY, 3 players, fee 50) fires with one genuine user waiting, the callback
  appends a bot entry and schedules the matching pass, but the entry is in the pool
  (MEMORY, 2 players, fee 50); the pool of the timer still counts one entry and is not
  backfilled.
\<close>

theorem deployBotIfNeeded_files_bot_in_other_pool:
  "queueCount ''MEMORY'' 3 50 (demo_queue [entry_three]) = 1 \<and>
   humanPlayersCount ''MEMORY'' 3 50 (demo_queue [entry_three]) = 1 \<and>
   fst (deployBotIfNeeded ''bot2'' ''MEMORY'' 3 50 (demo_queue [entry_three])) \<and>
   map (\<lambda>q. (q_userId q, q_maxPlayers q))
     (matchmakingQueue (snd (deployBotIfNeeded ''bot2'' ''MEMORY'' 3 50 (demo_queue [entry_three]))))
     = [(''u1'', 3), (''bot1'', 2)] \<and>
   queueCount ''MEMORY'' 3 50
     (snd (deployBotIfNeeded ''bot2'' ''MEMORY'' 3 50 (demo_queue [entry_three]))) = 1 \<and>
   queueCount ''MEMORY'' 2 50
     (snd (deployBotIfNeeded ''bot2'' ''MEMORY'' 3 50 (demo_queue [entry_three]))) = 1"
  by (simp add: deployBotIfNeeded_def getBotForMatchmaking_def botAvailable_def queueCount_def
                humanPlayersCount_def sameQueue_def demo_queue_def demo_sys_def entry_three_def
                Let_def)

section \<open>Properties of settlement\<close>

lemma creditWallet_throw: "a \<le> 0 \<Longrightarrow> creditWallet u a k g s = (CreditThrow ''Invalid amount for credit'', s)"
  by (simp add: creditWallet_def)

lemma creditWallet_ok:
  assumes "0 < a"
  shows "\<exists>b gb wb i s'. creditWallet u a k g s = (CreditOk b gb wb i, s') \<and>
           transactions s' = transactions s @
             [\<lparr>t_id = i, t_userId = u, t_type = k, t_amount = a, t_status = ''COMPLETED'',
               t_gameId = g\<rparr>] \<and>
           processedWinnings s' = processedWinnings s \<and> gameTable s' = gameTable s \<and>
           matchmakingQueue s' = matchmakingQueue s \<and>
           ongoingDeductions s' = ongoingDeductions s"
proof -
  obtain w sw where gw: "getWallet u s = (w, sw)" by (cases "getWallet u s")
  from getWallet_balances[OF gw] have
    "transactions sw = transactions s" "processedWinnings sw = processedWinnings s"
    "gameTable sw = gameTable s" "matchmakingQueue sw = matchmakingQueue s"
    "ongoingDeductions sw = ongoingDeductions s"
    by simp_all
  with assms gw show ?thesis by (simp add: creditWallet_def Let_def)
qed

lemma getGameById_upd [simp]:
  "getGameById g (s\<lparr>processedWinnings := P\<rparr>) = getGameById g s"
  by (simp add: getGameById_def)

lemma ledgerSum_append:
  "transactions s' = transactions s @ [t] \<Longrightarrow>
     ledgerSum s' g k = ledgerSum s g k +
       (if t_gameId t = Some g \<and> t_type t = k \<and> t_status t = ''COMPLETED'' then t_amount t else 0)"
  by (simp add: ledgerSum_def)

lemma completedEntries_append:
  "transactions s' = transactions s @ [t] \<Longrightarrow>
     completedEntries s' u g k = completedEntries s u g k @
       (if t_userId t = u \<and> t_gameId t = Some g \<and> t_type t = k \<and> t_status t = ''COMPLETED''
        then [t] else [])"
  by (simp add: completedEntries_def)

lemma refundAll_throw:
  "fee \<le> 0 \<Longrightarrow> ps \<noteq> [] \<Longrightarrow> refundAll ps fee g s = (False, s)"
  by (cases ps) (simp_all add: creditWallet_throw)

lemma refundAll_ok:
  assumes "0 < fee"
  shows "\<exists>s'. refundAll ps fee g s = (True, s') \<and>
           processedWinnings s' = processedWinnings s \<and> gameTable s' = gameTable s \<and>
           (\<forall>k. ledgerSum s' g k = ledgerSum s g k +
                  (if k = ''REFUND'' then of_nat (length ps) * fee else 0)) \<and>
           (\<forall>u k. length (completedEntries s' u g k) = length (completedEntries s u g k) +
                  (if k = ''REFUND'' then count_list (map gp_userId ps) u else 0))"
proof (induction ps arbitrary: s)
  case Nil
  then show ?case by simp
next
  case (Cons p ps)
  from creditWallet_ok[OF assms, of "gp_userId p" "''REFUND''" "Some g" s]
  obtain b gb wb i s1 where
    c: "creditWallet (gp_userId p) fee ''REFUND'' (Some g) s = (CreditOk b gb wb i, s1)"
    and t: "transactions s1 = transactions s @
             [\<lparr>t_id = i, t_userId = gp_userId p, t_type = ''REFUND'', t_amount = fee,
               t_status = ''COMPLETED'', t_gameId = Some g\<rparr>]"
    and keep: "processedWinnings s1 = processedWinnings s" "gameTable s1 = gameTable s"
    by blast
  from Cons.IH[of s1] obtain s' where
    r: "refundAll ps fee g s1 = (True, s')"
    and keep': "processedWinnings s' = processedWinnings s1" "gameTable s' = gameTable s1"
    and sums: "\<forall>k. ledgerSum s' g k = ledgerSum s1 g k +
                  (if k = ''REFUND'' then of_nat (length ps) * fee else 0)"
    and cnts: "\<forall>u k. length (completedEntries s' u g k) = length (completedEntries s1 u g k) +
                  (if k = ''REFUND'' then count_list (map gp_userId ps) u else 0)"
    by blast
  have "refundAll (p # ps) fee g s = (True, s')" using c r by simp
  moreover have "\<forall>k. ledgerSum s' g k = ledgerSum s g k +
                  (if k = ''REFUND'' then of_nat (length (p # ps)) * fee else 0)"
    using sums by (simp add: ledgerSum_append[OF t] algebra_simps)
  moreover have "\<forall>u k. length (completedEntries s' u g k) = length (completedEntries s u g k) +
                  (if k = ''REFUND'' then count_list (map gp_userId (p # ps)) u else 0)"
    using cnts by (simp add: completedEntries_append[OF t])
  ultimately show ?case using keep keep' by simp
qed

lemma refundAll_True:
  assumes "refundAll ps fee g s = (True, s')"
  shows "processedWinnings s' = processedWinnings s \<and> gameTable s' = gameTable s \<and>
         (\<forall>k. ledgerSum s' g k = ledgerSum s g k +
                  (if k = ''REFUND'' then of_nat (length ps) * fee else 0)) \<and>
         (\<forall>u k. length (completedEntries s' u g k) = length (completedEntries s u g k) +
                  (if k = ''REFUND'' then count_list (map gp_userId ps) u else 0))"
proof (cases "0 < fee")
  case True
  from refundAll_ok[OF True, of ps g s] assms show ?thesis by auto
next
  case False
  then have le: "fee \<le> 0" by simp
  have "ps = []" using refundAll_throw[OF le, of ps g s] assms by (cases ps) auto
  with assms show ?thesis by simp
qed

lemma creditWallet_Ok:
  assumes "creditWallet u a k g s = (CreditOk b gb wb i, s')"
  shows "0 < a \<and>
         transactions s' = transactions s @
           [\<lparr>t_id = i, t_userId = u, t_type = k, t_amount = a, t_status = ''COMPLETED'',
             t_gameId = g\<rparr>] \<and>
         processedWinnings s' = processedWinnings s \<and> gameTable s' = gameTable s"
proof (cases "0 < a")
  case True
  from creditWallet_ok[OF True, of u k g s] assms True show ?thesis by auto
next
  case False
  then have "a \<le> 0" by simp
  from creditWallet_throw[OF this, of u k g s] assms show ?thesis by simp
qed

lemma safeProcessWinnings_success:
  assumes "safeProcessWinnings gid w reason s = (SettleResult True msg, s1)"
  shows "gid \<notin> processedWinnings s \<and>
         (\<exists>game. getGameById gid s = Some game \<and> \<not> winningTransactionExists gid s \<and>
           ((msg = ''refunded_all_players'' \<and>
             refundAll (g_participants game) (g_entryFee game) gid
               (s\<lparr>processedWinnings := insert gid (processedWinnings s)\<rparr>) = (True, s1)) \<or>
            (msg = ''winner_credited'' \<and>
             (\<exists>winner b gb wb i. w = Some winner \<and>
                creditWallet winner (g_prizePool game) ''GAME_WINNING'' (Some gid)
                  (s\<lparr>processedWinnings := insert gid (processedWinnings s)\<rparr>)
                  = (CreditOk b gb wb i, s1)))))"
proof -
  have w: "winningTransactionExists gid (s\<lparr>processedWinnings := P\<rparr>) = winningTransactionExists gid s"
    for P by (simp add: winningTransactionExists_def)
  show ?thesis
    using assms
    by (auto simp: safeProcessWinnings_def Let_def w
             split: if_splits option.splits prod.splits bool.splits credit_result.splits)
qed

lemma winning_none:
  "\<not> winningTransactionExists gid s \<Longrightarrow> completedEntries s u gid ''GAME_WINNING'' = []"
  by (auto simp: winningTransactionExists_def completedEntries_def list_ex_iff filter_empty_conv)

lemma completedEntries_upd [simp]:
  "completedEntries (s\<lparr>processedWinnings := P\<rparr>) = completedEntries s"
  by (simp add: completedEntries_def fun_eq_iff)

lemma ledgerSum_upd [simp]:
  "ledgerSum (s\<lparr>processedWinnings := P\<rparr>) = ledgerSum s"
  by (simp add: ledgerSum_def fun_eq_iff)

lemma count_list_distinct_map:
  "distinct (map f xs) \<Longrightarrow> count_list (map f xs) u = (if u \<in> f ` set xs then 1 else 0)"
  by (induction xs) auto

text \<open>
  Claim C1. After a settlement that succeeded (the winner was credited, or all participants
  were refunded), any further call of \<open>safeProcessWinnings\<close> for the session returns
  \<open>already_processed\<close> and hands back the very same store: ledger and balances after the
  second call are those after the first. For a session whose participants are distinct
  accounts and that had no refund entry before, the store then holds exactly one COMPLETED
  \<open>GAME_WINNING\<close> entry for the winner and none for anyone else (winner outcome), or exactly
  one COMPLETED \<open>REFUND\<close> entry for each participant and none for anyone else (refund
  outcome).
\<close>

theorem safeProcessWinnings_twice:
  assumes first: "safeProcessWinnings gid w reason s = (SettleResult True msg, s1)"
    and game: "getGameById gid s = Some game"
    and parts: "distinct (map gp_userId (g_participants game))"
    and norefund: "\<forall>u. completedEntries s u gid ''REFUND'' = []"
  shows "safeProcessWinnings gid w' reason' s1 = (SettleResult False ''already_processed'', s1) \<and>
         (msg = ''winner_credited'' \<or> msg = ''refunded_all_players'') \<and>
         (msg = ''winner_credited'' \<longrightarrow>
            (\<exists>winner. w = Some winner \<and>
               (\<forall>u. length (completedEntries s1 u gid ''GAME_WINNING'')
                      = (if u = winner then 1 else 0)) \<and>
               ledgerSum s1 gid ''GAME_WINNING'' = ledgerSum s gid ''GAME_WINNING'' + g_prizePool game)) \<and>
         (msg = ''refunded_all_players'' \<longrightarrow>
            (\<forall>u. length (completedEntries s1 u gid ''REFUND'')
                   = (if u \<in> gp_userId ` set (g_participants game) then 1 else 0)))"
proof -
  let ?s0 = "s\<lparr>processedWinnings := insert gid (processedWinnings s)\<rparr>"
  from safeProcessWinnings_success[OF first] game have
    nowin: "\<not> winningTransactionExists gid s"
    and alt: "(msg = ''refunded_all_players'' \<and>
             refundAll (g_participants game) (g_entryFee game) gid ?s0 = (True, s1)) \<or>
            (msg = ''winner_credited'' \<and>
             (\<exists>winner b gb wb i. w = Some winner \<and>
                creditWallet winner (g_prizePool game) ''GAME_WINNING'' (Some gid) ?s0
                  = (CreditOk b gb wb i, s1)))"
    by auto
  from alt show ?thesis
  proof
    assume r: "msg = ''refunded_all_players'' \<and>
             refundAll (g_participants game) (g_entryFee game) gid ?s0 = (True, s1)"
    from refundAll_True[of "g_participants game" "g_entryFee game" gid ?s0 s1] r have
      pw: "processedWinnings s1 = insert gid (processedWinnings s)"
      and cnt: "\<forall>u k. length (completedEntries s1 u gid k) = length (completedEntries s u gid k) +
                  (if k = ''REFUND'' then count_list (map gp_userId (g_participants game)) u else 0)"
      by simp_all
    have "\<forall>u. length (completedEntries s1 u gid ''REFUND'')
                   = (if u \<in> gp_userId ` set (g_participants game) then 1 else 0)"
      using cnt norefund by (simp add: count_list_distinct_map[OF parts])
    with r pw show ?thesis by (simp add: safeProcessWinnings_def)
  next
    assume c: "msg = ''winner_credited'' \<and>
             (\<exists>winner b gb wb i. w = Some winner \<and>
                creditWallet winner (g_prizePool game) ''GAME_WINNING'' (Some gid) ?s0
                  = (CreditOk b gb wb i, s1))"
    then obtain winner b gb wb i where wn: "w = Some winner"
      and cw: "creditWallet winner (g_prizePool game) ''GAME_WINNING'' (Some gid) ?s0
                  = (CreditOk b gb wb i, s1)" by blast
    from creditWallet_Ok[OF cw] have
      t: "transactions s1 = transactions ?s0 @
           [\<lparr>t_id = i, t_userId = winner, t_type = ''GAME_WINNING'', t_amount = g_prizePool game,
             t_status = ''COMPLETED'', t_gameId = Some gid\<rparr>]"
      and pw: "processedWinnings s1 = insert gid (processedWinnings s)"
      by simp_all
    have "\<forall>u. length (completedEntries s1 u gid ''GAME_WINNING'') = (if u = winner then 1 else 0)"
      by (simp add: completedEntries_append[OF t] winning_none[OF nowin])
    moreover have "ledgerSum s1 gid ''GAME_WINNING'' = ledgerSum s gid ''GAME_WINNING'' + g_prizePool game"
      by (simp add: ledgerSum_append[OF t])
    ultimately show ?thesis using c wn pw by (simp add: safeProcessWinnings_def)
  qed
qed

lemma demo_settle_game:
  "getGameById ''g1'' demo_settle =
     Some \<lparr>g_type = ''MEMORY'', g_maxPlayers = 2, g_entryFee = 50, g_prizePool = 80,
            g_status = ''PLAYING'',
            g_participants = [\<lparr>gp_userId = ''u1'', gp_position = 0, gp_score = 0\<rparr>,
                              \<lparr>gp_userId = ''u2'', gp_position = 1, gp_score = 0\<rparr>]\<rparr>"
  by (simp add: getGameById_def demo_settle_def demo_sys_def)

theorem safeProcessWinnings_twice_witness:
  "(\<exists>s1. safeProcessWinnings ''g1'' (Some ''u1'') ''game_completed'' demo_settle
            = (SettleResult True ''winner_credited'', s1) \<and>
          safeProcessWinnings ''g1'' (Some ''u1'') ''game_completed'' s1
            = (SettleResult False ''already_processed'', s1) \<and>
          length (completedEntries s1 ''u1'' ''g1'' ''GAME_WINNING'') = 1) \<and>
   (\<exists>s1. safeProcessWinnings ''g1'' None ''network_issue'' demo_settle
            = (SettleResult True ''refunded_all_players'', s1) \<and>
          safeProcessWinnings ''g1'' None ''network_issue'' s1
            = (SettleResult False ''already_processed'', s1) \<and>
          length (completedEntries s1 ''u1'' ''g1'' ''REFUND'') = 1 \<and>
          length (completedEntries s1 ''u2'' ''g1'' ''REFUND'') = 1)"
proof -
  note game = demo_settle_game
  have parts: "distinct (map gp_userId (g_participants
     \<lparr>g_type = ''MEMORY'', g_maxPlayers = 2, g_entryFee = 50, g_prizePool = 80,
            g_status = ''PLAYING'',
            g_participants = [\<lparr>gp_userId = ''u1'', gp_position = 0, gp_score = 0\<rparr>,
                              \<lparr>gp_userId = ''u2'', gp_position = 1, gp_score = 0\<rparr>]\<rparr>))"
    by simp
  have norefund: "\<forall>u. completedEntries demo_settle u ''g1'' ''REFUND'' = []"
    by (simp add: completedEntries_def demo_settle_def demo_sys_def)
  have nowin: "\<not> winningTransactionExists ''g1''
      (demo_settle\<lparr>processedWinnings := insert ''g1'' (processedWinnings demo_settle)\<rparr>)"
    by (simp add: winningTransactionExists_def demo_settle_def demo_sys_def)
  have fresh: "''g1'' \<notin> processedWinnings demo_settle"
    by (simp add: demo_settle_def demo_sys_def)
  obtain s1 where w1: "safeProcessWinnings ''g1'' (Some ''u1'') ''game_completed'' demo_settle
            = (SettleResult True ''winner_credited'', s1)"
    using creditWallet_ok[of 80 "''u1''" "''GAME_WINNING''" "Some ''g1''"
        "demo_settle\<lparr>processedWinnings := insert ''g1'' (processedWinnings demo_settle)\<rparr>"]
    by (auto simp: safeProcessWinnings_def Let_def game nowin fresh)
  obtain s2 where r1: "safeProcessWinnings ''g1'' None ''network_issue'' demo_settle
            = (SettleResult True ''refunded_all_players'', s2)"
    using refundAll_ok[of 50 "[\<lparr>gp_userId = ''u1'', gp_position = 0, gp_score = 0\<rparr>,
                              \<lparr>gp_userId = ''u2'', gp_position = 1, gp_score = 0\<rparr>]" "''g1''"
        "demo_settle\<lparr>processedWinnings := insert ''g1'' (processedWinnings demo_settle)\<rparr>"]
    by (auto simp: safeProcessWinnings_def Let_def game nowin fresh)
  from safeProcessWinnings_twice[OF w1 game parts norefund, of "Some ''u1''" "''game_completed''"]
  have a: "safeProcessWinnings ''g1'' (Some ''u1'') ''game_completed'' s1
            = (SettleResult False ''already_processed'', s1) \<and>
          length (completedEntries s1 ''u1'' ''g1'' ''GAME_WINNING'') = 1"
    by simp
  from safeProcessWinnings_twice[OF r1 game parts norefund, of None "''network_issue''"]
  have b: "safeProcessWinnings ''g1'' None ''network_issue'' s2
            = (SettleResult False ''already_processed'', s2) \<and>
          length (completedEntries s2 ''u1'' ''g1'' ''REFUND'') = 1 \<and>
          length (completedEntries s2 ''u2'' ''g1'' ''REFUND'') = 1"
    by simp
  from w1 a r1 b show ?thesis by blast
qed

section \<open>Properties of session formation\<close>










end
